theory Spec2Isabelle
  imports Main
begin

section \<open>Values shared by the two packages\<close>

text \<open>
  Go strings and byte slices are byte sequences: both are \<open>string\<close> here (a \<open>char\<close> is
  one byte). Go's \<open>int\<close> never overflows in this code (no arithmetic is done on an exit
  status), so it is \<open>int\<close>.
\<close>

type_synonym bytes = string

text \<open>\<open>ssh.Waitmsg\<close>: the exit status and the signal name the remote reported.\<close>

record Waitmsg =
  status :: int
  signal :: string

definition ExitStatus :: "Waitmsg \<Rightarrow> int" where
  "ExitStatus w = status w"

text \<open>
  A Go \<open>error\<close> value. \<open>ExitError\<close> and \<open>ExitMissingError\<close> are the two dynamic types
  the type switch of \<open>RunCommandWithOutput\<close> looks for; \<open>LibError\<close> is any other error
  of a library (its message); \<open>Errorf f args\<close> is the fresh error built by
  \<open>fmt.Errorf(f, args...)\<close>, kept unformatted. A nil error is \<open>None\<close> of
  \<open>error option\<close>.
\<close>

datatype error =
    ExitError Waitmsg
  | ExitMissingError
  | LibError string
  | Errorf string "fmtarg list"
and fmtarg =
    ArgString string
  | ArgError "error option"

text \<open>A call either returns or panics (\<open>panic(err)\<close>, or a run-time error).\<close>

datatype 'a outcome = Returns 'a | Panics error

subsection \<open>The transport library's data\<close>

text \<open>\<open>ssh.PublicKey\<close>: the algorithm name (\<open>Type()\<close>) and the wire encoding (\<open>Marshal()\<close>).\<close>

record PublicKey =
  Type :: string
  Marshal :: bytes

datatype Signer = Signer bytes

datatype AuthMethod = PublicKeys Signer

text \<open>
  The host-key callbacks the library offers: \<open>ssh.FixedHostKey(key)\<close> and
  \<open>ssh.InsecureIgnoreHostKey()\<close>.
\<close>

datatype HostKeyCallback = FixedHostKey PublicKey | InsecureIgnoreHostKey

record ClientConfig =
  User :: string
  Auth :: "AuthMethod list"
  HostKeyCallback :: HostKeyCallback
  HostKeyAlgorithms :: "string list"

datatype TerminalMode = ECHO | TTY_OP_ISPEED | TTY_OP_OSPEED

text \<open>\<open>net.IP\<close>: nil, or an address (kept as its text). \<open>String()\<close> of nil is \<open><nil>\<close>.\<close>

datatype IP = IPnil | IP string

fun IP_String :: "IP \<Rightarrow> string" where
  "IP_String IPnil = ''<nil>''"
| "IP_String (IP s) = s"

record FileInfo =
  Name :: string
  IsRegular :: bool

text \<open>
  What the remote side did with a command handed to \<open>session.Run\<close>: it exited with a
  code, was ended by a signal, ended without reporting either, or the transport failed.
\<close>

datatype remote_outcome =
    Exited int
  | Signalled Waitmsg
  | NoExitStatus
  | IOFailure error

subsection \<open>The world: a log of the calls made to the outside\<close>

text \<open>
  Every call that leaves the process (file system, network, control plane) appends one
  event to the log. Connections and sub-sessions are handles (\<open>nat\<close>).
  Calls to \<open>log.Printf\<close> are not recorded.
\<close>

datatype event =
    EvReadFile string
  | EvStat string
  | EvOpen string
  | EvFileClose string
  | EvDial string string ClientConfig "error + nat"
  | EvConnClose nat "error option"
  | EvNewSession nat "error + nat"
  | EvRequestPty nat string nat nat "(TerminalMode \<times> nat) list"
  | EvRun nat string
  | EvStdinPipe nat
  | EvStart nat string
  | EvCopy nat bytes
  | EvStdinClose nat
  | EvWait nat
  | EvSessionClose nat
  | EvAwsNewSession
  | EvDescribeInstanceStatus string
  | EvStartInstances string
  | EvWaitUntilInstanceStatusOk string
  | EvDescribeInstances string

type_synonym world = "event list"

text \<open>
  The outside, as a deterministic environment: what each library call answers, given the
  log so far. None of these functions is code of this repository; they are parameters of
  every definition below.
\<close>

record env =
  ssh_ParseAuthorizedKey :: "bytes \<Rightarrow> error + PublicKey"
  ioutil_ReadFile :: "world \<Rightarrow> string \<Rightarrow> error + bytes"
  ssh_ParsePrivateKey :: "bytes \<Rightarrow> error + Signer"
  net_ParseIP :: "string \<Rightarrow> IP"
  net_connect :: "world \<Rightarrow> string \<Rightarrow> error + nat"
  server_host_keys :: "world \<Rightarrow> string \<Rightarrow> PublicKey list"
  server_auth :: "world \<Rightarrow> string \<Rightarrow> string \<Rightarrow> AuthMethod list \<Rightarrow> error option"
  conn_Close :: "world \<Rightarrow> nat \<Rightarrow> error option"
  client_NewSession :: "world \<Rightarrow> nat \<Rightarrow> error + nat"
  session_RequestPty :: "world \<Rightarrow> nat \<Rightarrow> error option"
  session_Run :: "world \<Rightarrow> nat \<Rightarrow> string \<Rightarrow> remote_outcome \<times> bytes \<times> bytes"
  session_StdinPipe :: "world \<Rightarrow> nat \<Rightarrow> error option"
  session_Start :: "world \<Rightarrow> nat \<Rightarrow> string \<Rightarrow> error option"
  stdin_Close :: "world \<Rightarrow> nat \<Rightarrow> error option"
  session_Wait :: "world \<Rightarrow> nat \<Rightarrow> error option"
  os_Stat :: "world \<Rightarrow> string \<Rightarrow> error + FileInfo"
  os_Open :: "world \<Rightarrow> string \<Rightarrow> error + bytes"
  aws_NewSession :: "world \<Rightarrow> error option"
  ec2_DescribeInstanceStatus :: "world \<Rightarrow> string \<Rightarrow> error + string list"
  ec2_StartInstances :: "world \<Rightarrow> string \<Rightarrow> error option"
  ec2_WaitUntilInstanceStatusOk :: "world \<Rightarrow> string \<Rightarrow> error option"
  ec2_DescribeInstances :: "world \<Rightarrow> string \<Rightarrow> error + string option list list"

text \<open>
  The connections that are open after a log: a successful dial opens one, closing it
  releases it (a second close of the same handle changes nothing).
\<close>

fun conn_step :: "nat list \<Rightarrow> event \<Rightarrow> nat list" where
  "conn_step cs (EvDial network addr config (Inr c)) = cs @ [c]"
| "conn_step cs (EvConnClose c r) = removeAll c cs"
| "conn_step cs ev = cs"

definition open_conns :: "world \<Rightarrow> nat list" where
  "open_conns tr = foldl conn_step [] tr"

section \<open>The transport library, as the source uses it\<close>

text \<open>
  The callback built by \<open>ssh.FixedHostKey\<close> accepts a presented key exactly when its wire
  encoding equals that of the pinned key; \<open>ssh.InsecureIgnoreHostKey\<close> accepts every key.
\<close>

fun check_host_key :: "HostKeyCallback \<Rightarrow> PublicKey \<Rightarrow> error option" where
  "check_host_key (FixedHostKey k) presented =
     (if Marshal presented = Marshal k then None else Some (LibError ''ssh: host key mismatch''))"
| "check_host_key InsecureIgnoreHostKey presented = None"

text \<open>
  Key negotiation: the first algorithm of the client's list for which the server holds a
  key, and the server's key of that algorithm.
\<close>

definition negotiate_host_key :: "string list \<Rightarrow> PublicKey list \<Rightarrow> PublicKey option" where
  "negotiate_host_key algos keys =
     (case find (\<lambda>a. a \<in> set (map Type keys)) algos of
        None \<Rightarrow> None
      | Some a \<Rightarrow> find (\<lambda>k. Type k = a) keys)"

text \<open>
  \<open>ssh.Dial\<close>: connect, negotiate the host key among \<open>HostKeyAlgorithms\<close>, run
  \<open>HostKeyCallback\<close> on the key presented, authenticate. Any failure closes the
  connection and is returned as the error; the dial and its result are logged.
\<close>

definition ssh_Dial :: "env \<Rightarrow> string \<Rightarrow> string \<Rightarrow> ClientConfig \<Rightarrow> world \<Rightarrow> (error + nat) \<times> world" where
  "ssh_Dial E network addr config tr =
     (let r = (case net_connect E tr addr of
                 Inl e \<Rightarrow> Inl e
               | Inr c \<Rightarrow>
                  (case negotiate_host_key (HostKeyAlgorithms config) (server_host_keys E tr addr) of
                     None \<Rightarrow> Inl (LibError ''ssh: no common algorithm for host key'')
                   | Some k \<Rightarrow>
                      (case check_host_key (HostKeyCallback config) k of
                         Some e \<Rightarrow> Inl e
                       | None \<Rightarrow>
                          (case server_auth E tr addr (User config) (Auth config) of
                             Some e \<Rightarrow> Inl e
                           | None \<Rightarrow> Inr c))))
      in (r, tr @ [EvDial network addr config r]))"

definition Conn_Close :: "env \<Rightarrow> nat \<Rightarrow> world \<Rightarrow> error option \<times> world" where
  "Conn_Close E c tr = (let r = conn_Close E tr c in (r, tr @ [EvConnClose c r]))"

definition Client_NewSession :: "env \<Rightarrow> nat \<Rightarrow> world \<Rightarrow> (error + nat) \<times> world" where
  "Client_NewSession E c tr = (let r = client_NewSession E tr c in (r, tr @ [EvNewSession c r]))"

definition Session_Close :: "nat \<Rightarrow> world \<Rightarrow> world" where
  "Session_Close s tr = tr @ [EvSessionClose s]"

definition Session_RequestPty ::
  "env \<Rightarrow> nat \<Rightarrow> string \<Rightarrow> nat \<Rightarrow> nat \<Rightarrow> (TerminalMode \<times> nat) list \<Rightarrow> world \<Rightarrow> error option \<times> world" where
  "Session_RequestPty E s term h w modes tr =
     (session_RequestPty E tr s, tr @ [EvRequestPty s term h w modes])"

text \<open>
  The error \<open>session.Run\<close> returns, as the comment in \<open>RunCommandWithOutput\<close> states it:
  nil when the command succeeds, an \<open>*ExitError\<close> when it completes unsuccessfully or is
  interrupted by a signal, an \<open>*ExitMissingError\<close> when the remote sends no exit status,
  another error for an I/O problem.
\<close>

fun run_error :: "remote_outcome \<Rightarrow> error option" where
  "run_error (Exited n) = (if n = 0 then None else Some (ExitError \<lparr>status = n, signal = []\<rparr>))"
| "run_error (Signalled wm) = Some (ExitError wm)"
| "run_error NoExitStatus = Some ExitMissingError"
| "run_error (IOFailure e) = Some e"

text \<open>\<open>session.Run\<close> with \<open>Stdout\<close> and \<open>Stderr\<close> set to two buffers: the error and what was written to each.\<close>

definition Session_Run :: "env \<Rightarrow> nat \<Rightarrow> string \<Rightarrow> world \<Rightarrow> (error option \<times> bytes \<times> bytes) \<times> world" where
  "Session_Run E s cmd tr =
     (case session_Run E tr s cmd of
        (out, stdoutBuf, stderrBuf) \<Rightarrow> ((run_error out, stdoutBuf, stderrBuf), tr @ [EvRun s cmd]))"

definition Session_StdinPipe :: "env \<Rightarrow> nat \<Rightarrow> world \<Rightarrow> error option \<times> world" where
  "Session_StdinPipe E s tr = (session_StdinPipe E tr s, tr @ [EvStdinPipe s])"

definition Session_Start :: "env \<Rightarrow> nat \<Rightarrow> string \<Rightarrow> world \<Rightarrow> error option \<times> world" where
  "Session_Start E s cmd tr = (session_Start E tr s cmd, tr @ [EvStart s cmd])"

definition Stdin_Close :: "env \<Rightarrow> nat \<Rightarrow> world \<Rightarrow> error option \<times> world" where
  "Stdin_Close E s tr = (stdin_Close E tr s, tr @ [EvStdinClose s])"

definition Session_Wait :: "env \<Rightarrow> nat \<Rightarrow> world \<Rightarrow> error option \<times> world" where
  "Session_Wait E s tr = (session_Wait E tr s, tr @ [EvWait s])"

text \<open>
  \<open>strings.Replace(s, old, new, n)\<close> for a pattern \<open>old\<close> of one byte: the first \<open>n\<close>
  occurrences are replaced, all of them when \<open>n < 0\<close>.
\<close>

fun strings_Replace :: "string \<Rightarrow> char \<Rightarrow> string \<Rightarrow> int \<Rightarrow> string" where
  "strings_Replace [] old new n = []"
| "strings_Replace (c # cs) old new n =
     (if c = old \<and> n \<noteq> 0 then new @ strings_Replace cs old new (n - 1)
      else c # strings_Replace cs old new n)"

section \<open>Package sshCmdClient\<close>

definition statusMissingStatus :: int where
  "statusMissingStatus = 1"

definition statusCmdFailedStatus :: int where
  "statusCmdFailedStatus = 1"

record SSHCredentials =
  SSHHostKey :: string
  SSHUsername :: string
  SSHPEMFile :: string

text \<open>\<open>SSHCmdClient\<close> holds the \<open>*ssh.Client\<close>: the handle of its connection.\<close>

record SSHCmdClient =
  client :: nat

definition SSHCmdClient_Close :: "env \<Rightarrow> SSHCmdClient \<Rightarrow> world \<Rightarrow> error option \<times> world" where
  "SSHCmdClient_Close E cli tr = Conn_Close E (client cli) tr"

text \<open>The closure \<open>authMethod\<close> of \<open>NewSSHCmdClient\<close>: it panics when the key file cannot be read or parsed.\<close>

definition authMethod :: "env \<Rightarrow> SSHCredentials \<Rightarrow> world \<Rightarrow> AuthMethod outcome \<times> world" where
  "authMethod E credentials tr =
     (case ioutil_ReadFile E tr (SSHPEMFile credentials) of
        Inl err \<Rightarrow> (Panics err, tr @ [EvReadFile (SSHPEMFile credentials)])
      | Inr buffer \<Rightarrow>
         (case ssh_ParsePrivateKey E buffer of
            Inl err \<Rightarrow> (Panics err, tr @ [EvReadFile (SSHPEMFile credentials)])
          | Inr key \<Rightarrow> (Returns (PublicKeys key), tr @ [EvReadFile (SSHPEMFile credentials)])))"

definition NewSSHCmdClient ::
  "env \<Rightarrow> IP \<Rightarrow> SSHCredentials \<Rightarrow> world \<Rightarrow> (error + SSHCmdClient) outcome \<times> world" where
  "NewSSHCmdClient E IPAddress credentials tr =
     (case ssh_ParseAuthorizedKey E (SSHHostKey credentials) of
        Inl err \<Rightarrow> (Returns (Inl (Errorf ''Error parsing host key : %s'' [ArgError (Some err)])), tr)
      | Inr hostKey \<Rightarrow>
         (case authMethod E credentials tr of
            (Panics p, tr1) \<Rightarrow> (Panics p, tr1)
          | (Returns am, tr1) \<Rightarrow>
             (let sshConfig = \<lparr>User = SSHUsername credentials,
                               Auth = [am],
                               HostKeyCallback = FixedHostKey hostKey,
                               HostKeyAlgorithms = [Type hostKey]\<rparr>
              in (case ssh_Dial E ''tcp'' (IP_String IPAddress @ '':22'') sshConfig tr1 of
                    (Inl err, tr2) \<Rightarrow>
                      (Returns (Inl (Errorf ''unable to connect to SSH server: %s'' [ArgError (Some err)])), tr2)
                  | (Inr conn, tr2) \<Rightarrow> (Returns (Inr \<lparr>client = conn\<rparr>), tr2)))))"

definition modes :: "(TerminalMode \<times> nat) list" where
  "modes = [(ECHO, 0), (TTY_OP_ISPEED, 14400), (TTY_OP_OSPEED, 14400)]"

text \<open>
  \<open>RunCommandWithOutput\<close>. The deferred \<open>session.Close()\<close> runs on every path after the
  sub-session has been opened; the two buffers are empty until \<open>session.Run\<close> writes them.
\<close>

definition RunCommandWithOutput ::
  "env \<Rightarrow> SSHCmdClient \<Rightarrow> string \<Rightarrow> world \<Rightarrow> (int \<times> bytes \<times> bytes \<times> error option) \<times> world" where
  "RunCommandWithOutput E cli cmd tr =
     (case Client_NewSession E (client cli) tr of
        (Inl err, tr1) \<Rightarrow>
          ((- 1, [], [], Some (Errorf ''unable to create session : %s'' [ArgError (Some err)])), tr1)
      | (Inr session, tr1) \<Rightarrow>
         (case Session_RequestPty E session ''xterm'' 40 80 modes tr1 of
            (Some err, tr2) \<Rightarrow>
              ((- 1, [], [], Some (Errorf ''request for pseudo terminal failed : %s'' [ArgError (Some err)])),
               Session_Close session tr2)
          | (None, tr2) \<Rightarrow>
             (case Session_Run E session cmd tr2 of
                ((None, stdoutBuf, stderrBuf), tr3) \<Rightarrow>
                  ((0, stdoutBuf, stderrBuf, None), Session_Close session tr3)
              | ((Some err, stdoutBuf, stderrBuf), tr3) \<Rightarrow>
                 (case err of
                    ExitError exitType \<Rightarrow>
                      ((ExitStatus exitType, stdoutBuf, stderrBuf, None), Session_Close session tr3)
                  | ExitMissingError \<Rightarrow>
                      ((statusMissingStatus, stdoutBuf, stderrBuf, Some err), Session_Close session tr3)
                  | _ \<Rightarrow>
                      ((statusCmdFailedStatus, stdoutBuf, stderrBuf, Some err), Session_Close session tr3)))))"

definition RunCommand :: "env \<Rightarrow> SSHCmdClient \<Rightarrow> string \<Rightarrow> world \<Rightarrow> (int \<times> error option) \<times> world" where
  "RunCommand E cli cmd tr =
     (case RunCommandWithOutput E cli cmd tr of
        ((exitStatus, stdoutBuf, stderrBuf, err), tr') \<Rightarrow> ((exitStatus, err), tr'))"


text \<open>
  \<open>writeToFile\<close>: \<open>source\<close> is what the reader yields. The result of \<open>io.Copy\<close> is
  dropped by the source.
\<close>

definition writeToFile :: "env \<Rightarrow> SSHCmdClient \<Rightarrow> bytes \<Rightarrow> string \<Rightarrow> world \<Rightarrow> error option \<times> world" where
  "writeToFile E cli source destination tr =
     (case Client_NewSession E (client cli) tr of
        (Inl err, tr1) \<Rightarrow> (Some err, tr1)
      | (Inr session, tr1) \<Rightarrow>
         (let cmd = ''cat >'' @ [CHR 0x27] @ strings_Replace destination (CHR 0x27) [CHR 0x27, CHR 0x5C, CHR 0x27, CHR 0x27] (- 1) @ [CHR 0x27]
          in (case Session_StdinPipe E session tr1 of
                (Some err, tr2) \<Rightarrow> (Some err, Session_Close session tr2)
              | (None, tr2) \<Rightarrow>
                 (case Session_Start E session cmd tr2 of
                    (Some err, tr3) \<Rightarrow> (Some err, Session_Close session tr3)
                  | (None, tr3) \<Rightarrow>
                     (case Stdin_Close E session (tr3 @ [EvCopy session source]) of
                        (Some err, tr4) \<Rightarrow> (Some err, Session_Close session tr4)
                      | (None, tr4) \<Rightarrow>
                         (case Session_Wait E session tr4 of
                            (err, tr5) \<Rightarrow> (err, Session_Close session tr5)))))))"

definition WriteBytesToFile :: "env \<Rightarrow> SSHCmdClient \<Rightarrow> bytes \<Rightarrow> string \<Rightarrow> world \<Rightarrow> error option \<times> world" where
  "WriteBytesToFile E cli source destination tr = writeToFile E cli source destination tr"

definition CopyFile :: "env \<Rightarrow> SSHCmdClient \<Rightarrow> string \<Rightarrow> string \<Rightarrow> world \<Rightarrow> error option \<times> world" where
  "CopyFile E cli source destination tr =
     (case os_Stat E tr source of
        Inl err \<Rightarrow>
          (Some (Errorf ''Error statting source file %s: %s'' [ArgString source, ArgError (Some err)]),
           tr @ [EvStat source])
      | Inr filestat \<Rightarrow>
         (if \<not> IsRegular filestat then
            (Some (Errorf ''Source file %s must be a regular file'' [ArgString (Name filestat)]),
             tr @ [EvStat source])
          else
            (case os_Open E (tr @ [EvStat source]) source of
               Inl err \<Rightarrow>
                 (Some (Errorf ''Error opening source file %s: %s'' [ArgString source, ArgError (Some err)]),
                  tr @ [EvStat source, EvOpen source])
             | Inr file \<Rightarrow>
                (case writeToFile E cli file destination (tr @ [EvStat source, EvOpen source]) of
                   (Some err, tr1) \<Rightarrow>
                     (Some (Errorf ''Error copying source file %s: %s'' [ArgString source, ArgError (Some err)]),
                      tr1 @ [EvFileClose source])
                 | (None, tr1) \<Rightarrow> (None, tr1 @ [EvFileClose source])))))"

section \<open>Package ec2RunCmd\<close>

text \<open>
  \<open>EC2RemoteClient\<close>. Its \<open>session\<close> and \<open>ec2Client\<close> fields are the handles of the
  control plane, which the environment stands for. \<open>cmdClient\<close> is a pointer: nil is
  \<open>None\<close>.
\<close>

record EC2RemoteClient =
  InstanceID :: string
  instanceIP :: IP
  sshCredentials :: SSHCredentials
  cmdClient :: "SSHCmdClient option"

definition nil_dereference :: error where
  "nil_dereference = LibError ''runtime error: invalid memory address or nil pointer dereference''"

definition index_out_of_range :: error where
  "index_out_of_range = LibError ''runtime error: index out of range''"

definition EC2RemoteClient_Close :: "env \<Rightarrow> EC2RemoteClient \<Rightarrow> world \<Rightarrow> error option outcome \<times> world" where
  "EC2RemoteClient_Close E ins tr =
     (case cmdClient ins of
        None \<Rightarrow> (Panics nil_dereference, tr)
      | Some cli \<Rightarrow> (case SSHCmdClient_Close E cli tr of (err, tr') \<Rightarrow> (Returns err, tr')))"

definition startInstance :: "env \<Rightarrow> EC2RemoteClient \<Rightarrow> world \<Rightarrow> error option \<times> world" where
  "startInstance E ins tr =
     (case ec2_StartInstances E tr (InstanceID ins) of
        Some err \<Rightarrow>
          (Some (Errorf ''Error starting instance : %s'' [ArgError (Some err)]),
           tr @ [EvStartInstances (InstanceID ins)])
      | None \<Rightarrow>
         (let tr1 = tr @ [EvStartInstances (InstanceID ins)]
          in (case ec2_WaitUntilInstanceStatusOk E tr1 (InstanceID ins) of
                Some err \<Rightarrow>
                  (Some (Errorf ''Error waiting for instance to become available : %s'' [ArgError (Some err)]),
                   tr1 @ [EvWaitUntilInstanceStatusOk (InstanceID ins)])
              | None \<Rightarrow> (None, tr1 @ [EvWaitUntilInstanceStatusOk (InstanceID ins)]))))"

text \<open>
  \<open>getIPAddress\<close>. The answer of \<open>DescribeInstances\<close> is the list of reservations, each the
  list of its instances' \<open>PublicIpAddress\<close> pointers; \<open>Reservations[0].Instances[0]\<close>
  panics on an empty list and \<open>*PublicIpAddress\<close> on nil.
\<close>

definition getIPAddress ::
  "env \<Rightarrow> EC2RemoteClient \<Rightarrow> world \<Rightarrow> error option outcome \<times> EC2RemoteClient \<times> world" where
  "getIPAddress E ins tr =
     (let tr1 = tr @ [EvDescribeInstances (InstanceID ins)]
      in (case ec2_DescribeInstances E tr (InstanceID ins) of
            Inl err \<Rightarrow>
              (Returns (Some (Errorf ''Error getting instance details : %s'' [ArgError (Some err)])), ins, tr1)
          | Inr [] \<Rightarrow> (Panics index_out_of_range, ins, tr1)
          | Inr ([] # rs) \<Rightarrow> (Panics index_out_of_range, ins, tr1)
          | Inr ((None # is) # rs) \<Rightarrow> (Panics nil_dereference, ins, tr1)
          | Inr ((Some addr # is) # rs) \<Rightarrow>
             (let ins1 = ins\<lparr>instanceIP := net_ParseIP E addr\<rparr>
              in (if instanceIP ins1 = IPnil
                  then (Returns (Some (Errorf ''Error parsing IP address'' [])), ins1, tr1)
                  else (Returns None, ins1, tr1)))))"

definition EC2RemoteClient_RunCommand ::
  "env \<Rightarrow> EC2RemoteClient \<Rightarrow> string \<Rightarrow> world \<Rightarrow> (int \<times> error option) outcome \<times> world" where
  "EC2RemoteClient_RunCommand E ins cmd tr =
     (case cmdClient ins of
        None \<Rightarrow> (Panics nil_dereference, tr)
      | Some cli \<Rightarrow> (case RunCommand E cli cmd tr of (r, tr') \<Rightarrow> (Returns r, tr')))"

text \<open>
  \<open>makeReady\<close>. The answer of \<open>DescribeInstanceStatus\<close> is the list of the
  \<open>InstanceState.Name\<close> of each status.
\<close>

definition makeReady ::
  "env \<Rightarrow> EC2RemoteClient \<Rightarrow> world \<Rightarrow> error option outcome \<times> EC2RemoteClient \<times> world" where
  "makeReady E ins tr =
     (let tr0 = tr @ [EvDescribeInstanceStatus (InstanceID ins)]
      in (case ec2_DescribeInstanceStatus E tr (InstanceID ins) of
            Inl err \<Rightarrow>
              (Returns (Some (Errorf ''Error getting instance status : %s'' [ArgError (Some err)])), ins, tr0)
          | Inr statuses \<Rightarrow>
             (case (if (case statuses of [] \<Rightarrow> True | name # ss \<Rightarrow> name \<noteq> ''running'')
                    then startInstance E ins tr0 else (None, tr0)) of
                (Some err, tr1) \<Rightarrow>
                  (Returns (Some (Errorf ''Error starting instance : %s'' [ArgError (Some err)])), ins, tr1)
              | (None, tr1) \<Rightarrow>
                 (case getIPAddress E ins tr1 of
                    (Panics p, ins1, tr2) \<Rightarrow> (Panics p, ins1, tr2)
                  | (Returns (Some err), ins1, tr2) \<Rightarrow>
                      (Returns (Some (Errorf ''Error getting IP address : %s'' [ArgError (Some err)])), ins1, tr2)
                  | (Returns None, ins1, tr2) \<Rightarrow>
                     (case NewSSHCmdClient E (instanceIP ins1) (sshCredentials ins1) tr2 of
                        (Panics p, tr3) \<Rightarrow> (Panics p, ins1, tr3)
                      | (Returns (Inl err), tr3) \<Rightarrow> (Returns (Some err), ins1\<lparr>cmdClient := None\<rparr>, tr3)
                      | (Returns (Inr cli), tr3) \<Rightarrow>
                         (let ins2 = ins1\<lparr>cmdClient := Some cli\<rparr>
                          in (case EC2RemoteClient_RunCommand E ins2 ''true'' tr3 of
                                (Panics p, tr4) \<Rightarrow> (Panics p, ins2, tr4)
                              | (Returns (exitStatus, err), tr4) \<Rightarrow>
                                 (if err \<noteq> None \<or> exitStatus \<noteq> 0
                                  then (Returns (Some (Errorf ''Error running commands on instance : %s'' [ArgError err])),
                                        ins2, tr4)
                                  else (Returns err, ins2, tr4)))))))))"

text \<open>
  \<open>NewEC2RemoteClient\<close> returns the pair \<open>(ins, err)\<close>: \<open>ins\<close> is nil only when the
  control-plane session cannot be created.
\<close>

definition NewEC2RemoteClient ::
  "env \<Rightarrow> string \<Rightarrow> SSHCredentials \<Rightarrow> world \<Rightarrow> (EC2RemoteClient option \<times> error option) outcome \<times> world" where
  "NewEC2RemoteClient E ID credentials tr =
     (let ins = \<lparr>InstanceID = ID, instanceIP = IPnil, sshCredentials = credentials, cmdClient = None\<rparr>
      in (case aws_NewSession E tr of
            Some err \<Rightarrow> (Returns (None, Some err), tr @ [EvAwsNewSession])
          | None \<Rightarrow>
             (case makeReady E ins (tr @ [EvAwsNewSession]) of
                (Panics p, ins', tr') \<Rightarrow> (Panics p, tr')
              | (Returns err, ins', tr') \<Rightarrow> (Returns (Some ins', err), tr'))))"

section \<open>The remote shell's reading of a command line\<close>

text \<open>
  The remote shell is outside the repository. This is the tokeniser of the POSIX shell
  for the fragment the upload command is written in: blanks separate words, the operator
  characters stand alone, a single quote starts a literal run that ends at the next single
  quote, a backslash outside quotes makes the next character literal (and removes a
  newline). Any other special character outside quotes, and an unterminated quote or
  backslash, is outside the fragment: \<open>None\<close>.
\<close>

datatype token = Word string | Operator char

fun flush :: "string option \<Rightarrow> token list" where
  "flush None = []"
| "flush (Some w) = [Word w]"

fun add_char :: "char \<Rightarrow> string option \<Rightarrow> string option" where
  "add_char c None = Some [c]"
| "add_char c (Some w) = Some (w @ [c])"

fun open_word :: "string option \<Rightarrow> string option" where
  "open_word None = Some []"
| "open_word (Some w) = Some w"

fun sh_unquoted :: "string option \<Rightarrow> string \<Rightarrow> token list option"
and sh_quoted :: "string option \<Rightarrow> string \<Rightarrow> token list option" where
  "sh_unquoted cur [] = Some (flush cur)"
| "sh_unquoted cur (c # cs) =
     (if c = CHR 0x27 then sh_quoted (open_word cur) cs
      else if c = CHR 0x5C then
        (case cs of
           [] \<Rightarrow> None
         | d # ds \<Rightarrow> if d = CHR 0x0A then sh_unquoted cur ds else sh_unquoted (add_char d cur) ds)
      else if c = CHR '' '' \<or> c = CHR 0x09 then map_option ((@) (flush cur)) (sh_unquoted None cs)
      else if c \<in> set ''|&;<>()'' \<or> c = CHR 0x0A then
        map_option ((@) (flush cur @ [Operator c])) (sh_unquoted None cs)
      else if c \<in> set ''$`*?[#~=%!{}'' \<or> c = CHR 0x22 then None
      else sh_unquoted (add_char c cur) cs)"
| "sh_quoted cur [] = None"
| "sh_quoted cur (c # cs) =
     (if c = CHR 0x27 then sh_unquoted cur cs else sh_quoted (add_char c cur) cs)"

definition sh_tokens :: "string \<Rightarrow> token list option" where
  "sh_tokens s = sh_unquoted None s"

section \<open>Vocabulary of the statements\<close>

text \<open>
  What the transport answers to the calls \<open>RunCommandWithOutput\<close> makes, in their order:
  the sub-session cannot be opened, the pseudo-terminal is refused, or the command is
  handed over and the remote side does \<open>out\<close>, having written \<open>so\<close> and \<open>se\<close> to the two
  streams. It reads the environment only, never the code.
\<close>

datatype attempt = SessionFailed error | PtyFailed error | Ran remote_outcome bytes bytes

definition attempt_of :: "env \<Rightarrow> SSHCmdClient \<Rightarrow> string \<Rightarrow> world \<Rightarrow> attempt" where
  "attempt_of E cli cmd tr =
     (case client_NewSession E tr (client cli) of
        Inl e \<Rightarrow> SessionFailed e
      | Inr s \<Rightarrow>
         (case session_RequestPty E (tr @ [EvNewSession (client cli) (Inr s)]) s of
            Some e \<Rightarrow> PtyFailed e
          | None \<Rightarrow>
             (case session_Run E
                     (tr @ [EvNewSession (client cli) (Inr s), EvRequestPty s ''xterm'' 40 80 modes]) s cmd of
                (out, so, se) \<Rightarrow> Ran out so se)))"

text \<open>An error whose dynamic type is neither \<open>*ssh.ExitError\<close> nor \<open>*ssh.ExitMissingError\<close>.\<close>

fun other_error :: "error \<Rightarrow> bool" where
  "other_error (ExitError wm) = False"
| "other_error ExitMissingError = False"
| "other_error e = True"

text \<open>The command lines handed to the remote shell in a log, in order.\<close>

fun command_of :: "event \<Rightarrow> string list" where
  "command_of (EvRun s cmd) = [cmd]"
| "command_of (EvStart s cmd) = [cmd]"
| "command_of ev = []"

definition commands_sent :: "world \<Rightarrow> string list" where
  "commands_sent tr = concat (map command_of tr)"


text \<open>The transport closes in a log.\<close>

fun is_conn_close :: "event \<Rightarrow> bool" where
  "is_conn_close (EvConnClose c r) = True"
| "is_conn_close ev = False"

text \<open>
  An environment for concrete runs: every call succeeds, the server holds an RSA and an
  Ed25519 host key, a connection refuses to be closed twice, and the remote side does
  \<open>out\<close> with every command.
\<close>

definition ok_env :: "remote_outcome \<Rightarrow> env" where
  "ok_env out =
     \<lparr>ssh_ParseAuthorizedKey =
        (\<lambda>b. if b = [] then Inl (LibError ''ssh: no key found'') else Inr \<lparr>Type = ''ssh-ed25519'', Marshal = b\<rparr>),
      ioutil_ReadFile = (\<lambda>tr f. Inr ''pem''),
      ssh_ParsePrivateKey = (\<lambda>b. Inr (Signer b)),
      net_ParseIP = (\<lambda>s. IP s),
      net_connect = (\<lambda>tr a. Inr 7),
      server_host_keys =
        (\<lambda>tr a. [\<lparr>Type = ''ssh-rsa'', Marshal = ''R''\<rparr>, \<lparr>Type = ''ssh-ed25519'', Marshal = ''K''\<rparr>]),
      server_auth = (\<lambda>tr a u m. None),
      conn_Close =
        (\<lambda>tr c. if c \<in> set (open_conns tr) then None
                else Some (LibError ''use of closed network connection'')),
      client_NewSession = (\<lambda>tr c. Inr (length tr)),
      session_RequestPty = (\<lambda>tr s. None),
      session_Run = (\<lambda>tr s cmd. (out, ''out'', ''err'')),
      session_StdinPipe = (\<lambda>tr s. None),
      session_Start = (\<lambda>tr s cmd. None),
      stdin_Close = (\<lambda>tr s. None),
      session_Wait = (\<lambda>tr s. None),
      os_Stat = (\<lambda>tr f. Inr \<lparr>Name = f, IsRegular = True\<rparr>),
      os_Open = (\<lambda>tr f. Inr ''data''),
      aws_NewSession = (\<lambda>tr. None),
      ec2_DescribeInstanceStatus = (\<lambda>tr i. Inr [''running'']),
      ec2_StartInstances = (\<lambda>tr i. None),
      ec2_WaitUntilInstanceStatusOk = (\<lambda>tr i. None),
      ec2_DescribeInstances = (\<lambda>tr i. Inr ([Some ''203.0.113.5''] # []))\<rparr>"

definition creds_K :: SSHCredentials where
  "creds_K = \<lparr>SSHHostKey = ''K'', SSHUsername = ''ec2-user'', SSHPEMFile = ''k.pem''\<rparr>"

definition creds_X :: SSHCredentials where
  "creds_X = \<lparr>SSHHostKey = ''X'', SSHUsername = ''ec2-user'', SSHPEMFile = ''k.pem''\<rparr>"

text \<open>
  The client and the log that \<open>NewEC2RemoteClient\<close> produces in that environment for the
  instance \<open>i-0\<close> when the remote side exits with \<open>0\<close>.
\<close>

definition ready_ins :: EC2RemoteClient where
  "ready_ins = \<lparr>InstanceID = ''i-0'', instanceIP = IP ''203.0.113.5'', sshCredentials = creds_K,
                 cmdClient = Some \<lparr>client = 7\<rparr>\<rparr>"

definition ready_world :: world where
  "ready_world = snd (NewEC2RemoteClient (ok_env (Exited 0)) ''i-0'' creds_K [])"

section \<open>Foreground commands\<close>

lemma RunCommandWithOutput_result:
  "fst (RunCommandWithOutput E cli cmd tr) =
     (case attempt_of E cli cmd tr of
        SessionFailed e \<Rightarrow> (- 1, [], [], Some (Errorf ''unable to create session : %s'' [ArgError (Some e)]))
      | PtyFailed e \<Rightarrow>
          (- 1, [], [], Some (Errorf ''request for pseudo terminal failed : %s'' [ArgError (Some e)]))
      | Ran out so se \<Rightarrow>
         (case run_error out of
            None \<Rightarrow> (0, so, se, None)
          | Some (ExitError wm) \<Rightarrow> (ExitStatus wm, so, se, None)
          | Some e \<Rightarrow> (1, so, se, Some e)))"
  by (auto simp: RunCommandWithOutput_def attempt_of_def Client_NewSession_def Session_RequestPty_def
      Session_Run_def Session_Close_def Let_def statusMissingStatus_def statusCmdFailedStatus_def
      split: sum.splits option.splits prod.splits error.splits)

lemma RunCommand_result:
  "fst (RunCommand E cli cmd tr) =
     (case fst (RunCommandWithOutput E cli cmd tr) of (exitStatus, so, se, err) \<Rightarrow> (exitStatus, err))"
  by (simp add: RunCommand_def split: prod.splits)

text \<open>
  Claim C2. When the remote execution of a command line completes with exit code \<open>N\<close>,
  \<open>RunCommand\<close> returns exit status \<open>N\<close> with a nil error, and \<open>RunCommandWithOutput\<close>
  returns \<open>N\<close>, the two captured streams and a nil error. It holds for every \<open>N\<close>, in
  particular for \<open>0 \<le> N \<le> 255\<close>.
\<close>

theorem C2_exit_code_returned:
  assumes "attempt_of E cli cmd tr = Ran (Exited N) so se"
  shows "fst (RunCommand E cli cmd tr) = (N, None) \<and>
         fst (RunCommandWithOutput E cli cmd tr) = (N, so, se, None)"
  using assms by (simp add: RunCommand_result RunCommandWithOutput_result ExitStatus_def)

theorem C2_exit_code_returned_witness:
  "attempt_of (ok_env (Exited 3)) \<lparr>client = 7\<rparr> ''exit 3'' [] = Ran (Exited 3) ''out'' ''err'' \<and>
   fst (RunCommand (ok_env (Exited 3)) \<lparr>client = 7\<rparr> ''exit 3'' []) = (3, None) \<and>
   fst (RunCommandWithOutput (ok_env (Exited 3)) \<lparr>client = 7\<rparr> ''exit 3'' []) = (3, ''out'', ''err'', None)"
proof -
  have h: "attempt_of (ok_env (Exited 3)) \<lparr>client = 7\<rparr> ''exit 3'' [] = Ran (Exited 3) ''out'' ''err''"
    by (simp add: attempt_of_def ok_env_def)
  show ?thesis using h C2_exit_code_returned [OF h] by simp
qed

text \<open>
  Claim C3, as stated, fails: when the remote side ends without reporting an exit status,
  the status returned is the sentinel 1, but the error returned is not nil.
\<close>

theorem C3_missing_status_counterexample:
  "attempt_of (ok_env NoExitStatus) \<lparr>client = 7\<rparr> ''sleep 60'' [] = Ran NoExitStatus ''out'' ''err'' \<and>
   fst (RunCommand (ok_env NoExitStatus) \<lparr>client = 7\<rparr> ''sleep 60'' []) \<noteq> (1, None) \<and>
   snd (snd (snd (fst (RunCommandWithOutput (ok_env NoExitStatus) \<lparr>client = 7\<rparr> ''sleep 60'' [])))) \<noteq> None"
  by (simp add: RunCommand_result RunCommandWithOutput_result attempt_of_def ok_env_def)

text \<open>
  Claim C3, amended. When the remote execution ends without an exit status being
  reported, \<open>RunCommand\<close> and \<open>RunCommandWithOutput\<close> return the sentinel status 1
  together with the transport's \<open>ExitMissingError\<close> as the error. When the command is
  ended by a signal, which the transport reports as an \<open>ExitError\<close>, they return the exit
  status of its \<open>Waitmsg\<close> and a nil error.
\<close>

theorem C3_missing_status:
  "(attempt_of E cli cmd tr = Ran NoExitStatus so se \<longrightarrow>
      fst (RunCommand E cli cmd tr) = (1, Some ExitMissingError) \<and>
      fst (RunCommandWithOutput E cli cmd tr) = (1, so, se, Some ExitMissingError)) \<and>
   (attempt_of E cli cmd tr = Ran (Signalled wm) so se \<longrightarrow>
      fst (RunCommand E cli cmd tr) = (ExitStatus wm, None) \<and>
      fst (RunCommandWithOutput E cli cmd tr) = (ExitStatus wm, so, se, None))"
  by (simp add: RunCommand_result RunCommandWithOutput_result)

theorem C3_missing_status_witness:
  "attempt_of (ok_env NoExitStatus) \<lparr>client = 7\<rparr> ''sleep 60'' [] = Ran NoExitStatus ''out'' ''err'' \<and>
   fst (RunCommand (ok_env NoExitStatus) \<lparr>client = 7\<rparr> ''sleep 60'' []) = (1, Some ExitMissingError) \<and>
   attempt_of (ok_env (Signalled \<lparr>status = 137, signal = ''KILL''\<rparr>)) \<lparr>client = 7\<rparr> ''sleep 60'' []
     = Ran (Signalled \<lparr>status = 137, signal = ''KILL''\<rparr>) ''out'' ''err'' \<and>
   fst (RunCommand (ok_env (Signalled \<lparr>status = 137, signal = ''KILL''\<rparr>)) \<lparr>client = 7\<rparr> ''sleep 60'' [])
     = (137, None)"
proof -
  have h1: "attempt_of (ok_env NoExitStatus) \<lparr>client = 7\<rparr> ''sleep 60'' [] = Ran NoExitStatus ''out'' ''err''"
    by (simp add: attempt_of_def ok_env_def)
  have h2: "attempt_of (ok_env (Signalled \<lparr>status = 137, signal = ''KILL''\<rparr>)) \<lparr>client = 7\<rparr> ''sleep 60'' []
     = Ran (Signalled \<lparr>status = 137, signal = ''KILL''\<rparr>) ''out'' ''err''"
    by (simp add: attempt_of_def ok_env_def)
  show ?thesis
    using h1 h2
      C3_missing_status [where E = "ok_env NoExitStatus" and cli = "\<lparr>client = 7\<rparr>" and cmd = "''sleep 60''"
        and tr = "[]" and so = "''out''" and se = "''err''"]
      C3_missing_status [where E = "ok_env (Signalled \<lparr>status = 137, signal = ''KILL''\<rparr>)"
        and cli = "\<lparr>client = 7\<rparr>" and cmd = "''sleep 60''" and tr = "[]" and so = "''out''" and se = "''err''"
        and wm = "\<lparr>status = 137, signal = ''KILL''\<rparr>"]
    by (simp add: ExitStatus_def)
qed

text \<open>
  Claim C4, as stated, fails: when the sub-session cannot be opened, the status returned
  is \<open>-1\<close>, not the sentinel 1, and the error is a new one, not the underlying value.
\<close>

theorem C4_session_failure_counterexample:
  "attempt_of ((ok_env (Exited 0))\<lparr>client_NewSession := \<lambda>tr c. Inl (LibError ''EOF'')\<rparr>) \<lparr>client = 7\<rparr> ''true'' []
     = SessionFailed (LibError ''EOF'') \<and>
   fst (RunCommand ((ok_env (Exited 0))\<lparr>client_NewSession := \<lambda>tr c. Inl (LibError ''EOF'')\<rparr>) \<lparr>client = 7\<rparr> ''true'' [])
     \<noteq> (1, Some (LibError ''EOF'')) \<and>
   fst (fst (RunCommand ((ok_env (Exited 0))\<lparr>client_NewSession := \<lambda>tr c. Inl (LibError ''EOF'')\<rparr>) \<lparr>client = 7\<rparr> ''true'' []))
     = - 1"
  by (simp add: RunCommand_result RunCommandWithOutput_result attempt_of_def ok_env_def)

text \<open>
  Claim C4, amended. When \<open>session.Run\<close> fails with an error that is neither an exit
  status nor a missing exit status, \<open>RunCommand\<close> and \<open>RunCommandWithOutput\<close> return the
  sentinel status 1 together with that error value. When the sub-session cannot be opened
  or the pseudo-terminal cannot be allocated, they return status \<open>-1\<close> together with a new
  error whose message is formatted from the underlying error, and empty captured streams.
\<close>

theorem C4_transport_failure:
  "(attempt_of E cli cmd tr = Ran (IOFailure e) so se \<and> other_error e \<longrightarrow>
      fst (RunCommand E cli cmd tr) = (1, Some e) \<and>
      fst (RunCommandWithOutput E cli cmd tr) = (1, so, se, Some e)) \<and>
   (attempt_of E cli cmd tr = SessionFailed e \<longrightarrow>
      fst (RunCommand E cli cmd tr) = (- 1, Some (Errorf ''unable to create session : %s'' [ArgError (Some e)])) \<and>
      fst (RunCommandWithOutput E cli cmd tr) =
        (- 1, [], [], Some (Errorf ''unable to create session : %s'' [ArgError (Some e)]))) \<and>
   (attempt_of E cli cmd tr = PtyFailed e \<longrightarrow>
      fst (RunCommand E cli cmd tr) =
        (- 1, Some (Errorf ''request for pseudo terminal failed : %s'' [ArgError (Some e)])) \<and>
      fst (RunCommandWithOutput E cli cmd tr) =
        (- 1, [], [], Some (Errorf ''request for pseudo terminal failed : %s'' [ArgError (Some e)])))"
  by (cases e) (simp_all add: RunCommand_result RunCommandWithOutput_result)

theorem C4_transport_failure_witness:
  "attempt_of (ok_env (IOFailure (LibError ''EOF''))) \<lparr>client = 7\<rparr> ''true'' []
     = Ran (IOFailure (LibError ''EOF'')) ''out'' ''err'' \<and>
   other_error (LibError ''EOF'') \<and>
   fst (RunCommand (ok_env (IOFailure (LibError ''EOF''))) \<lparr>client = 7\<rparr> ''true'' []) = (1, Some (LibError ''EOF'')) \<and>
   attempt_of ((ok_env (Exited 0))\<lparr>client_NewSession := \<lambda>tr c. Inl (LibError ''EOF'')\<rparr>) \<lparr>client = 7\<rparr> ''true'' []
     = SessionFailed (LibError ''EOF'') \<and>
   fst (RunCommand ((ok_env (Exited 0))\<lparr>client_NewSession := \<lambda>tr c. Inl (LibError ''EOF'')\<rparr>) \<lparr>client = 7\<rparr> ''true'' [])
     = (- 1, Some (Errorf ''unable to create session : %s'' [ArgError (Some (LibError ''EOF''))])) \<and>
   attempt_of ((ok_env (Exited 0))\<lparr>session_RequestPty := \<lambda>tr s. Some (LibError ''EOF'')\<rparr>) \<lparr>client = 7\<rparr> ''true'' []
     = PtyFailed (LibError ''EOF'') \<and>
   fst (RunCommand ((ok_env (Exited 0))\<lparr>session_RequestPty := \<lambda>tr s. Some (LibError ''EOF'')\<rparr>) \<lparr>client = 7\<rparr> ''true'' [])
     = (- 1, Some (Errorf ''request for pseudo terminal failed : %s'' [ArgError (Some (LibError ''EOF''))]))"
proof -
  have h1: "attempt_of (ok_env (IOFailure (LibError ''EOF''))) \<lparr>client = 7\<rparr> ''true'' []
     = Ran (IOFailure (LibError ''EOF'')) ''out'' ''err''"
    by (simp add: attempt_of_def ok_env_def)
  have h2: "attempt_of ((ok_env (Exited 0))\<lparr>client_NewSession := \<lambda>tr c. Inl (LibError ''EOF'')\<rparr>) \<lparr>client = 7\<rparr> ''true'' []
     = SessionFailed (LibError ''EOF'')"
    by (simp add: attempt_of_def ok_env_def)
  have h3: "attempt_of ((ok_env (Exited 0))\<lparr>session_RequestPty := \<lambda>tr s. Some (LibError ''EOF'')\<rparr>) \<lparr>client = 7\<rparr> ''true'' []
     = PtyFailed (LibError ''EOF'')"
    by (simp add: attempt_of_def ok_env_def)
  show ?thesis
    using h1 h2 h3
      C4_transport_failure [of "ok_env (IOFailure (LibError ''EOF''))" "\<lparr>client = 7\<rparr>" "''true''" "[]"
        "LibError ''EOF''" "''out''" "''err''"]
      C4_transport_failure [of "(ok_env (Exited 0))\<lparr>client_NewSession := \<lambda>tr c. Inl (LibError ''EOF'')\<rparr>"
        "\<lparr>client = 7\<rparr>" "''true''" "[]" "LibError ''EOF''"]
      C4_transport_failure [of "(ok_env (Exited 0))\<lparr>session_RequestPty := \<lambda>tr s. Some (LibError ''EOF'')\<rparr>"
        "\<lparr>client = 7\<rparr>" "''true''" "[]" "LibError ''EOF''"]
    by simp
qed

section \<open>The log of a foreground command\<close>

lemma RunCommandWithOutput_log:
  "snd (RunCommandWithOutput E cli cmd tr) =
     (case client_NewSession E tr (client cli) of
        Inl e \<Rightarrow> tr @ [EvNewSession (client cli) (Inl e)]
      | Inr s \<Rightarrow>
         (case attempt_of E cli cmd tr of
            Ran out so se \<Rightarrow>
              tr @ [EvNewSession (client cli) (Inr s), EvRequestPty s ''xterm'' 40 80 modes, EvRun s cmd,
                    EvSessionClose s]
          | _ \<Rightarrow> tr @ [EvNewSession (client cli) (Inr s), EvRequestPty s ''xterm'' 40 80 modes, EvSessionClose s]))"
  by (auto simp: RunCommandWithOutput_def attempt_of_def Client_NewSession_def Session_RequestPty_def
      Session_Run_def Session_Close_def Let_def
      split: sum.splits option.splits prod.splits error.splits)

lemma RunCommand_log: "snd (RunCommand E cli cmd tr) = snd (RunCommandWithOutput E cli cmd tr)"
  by (simp add: RunCommand_def split: prod.splits)

lemma commands_sent_append: "commands_sent (tr @ tr') = commands_sent tr @ commands_sent tr'"
  by (simp add: commands_sent_def)

lemma commands_sent_Nil: "commands_sent [] = []"
  by (simp add: commands_sent_def)

lemma commands_sent_Cons: "commands_sent (ev # tr) = command_of ev @ commands_sent tr"
  by (simp add: commands_sent_def)

lemma RunCommandWithOutput_commands:
  "commands_sent (snd (RunCommandWithOutput E cli cmd tr)) =
     commands_sent tr @ (case attempt_of E cli cmd tr of Ran out so se \<Rightarrow> [cmd] | _ \<Rightarrow> [])"
  by (auto simp: RunCommandWithOutput_log commands_sent_append commands_sent_def attempt_of_def
      split: sum.splits attempt.splits option.splits prod.splits)

text \<open>
  Claim C10. \<open>RunCommand\<close> returns exactly the exit status and the error of
  \<open>RunCommandWithOutput\<close> on the same command line and leaves the same log; so it also asks
  for the pseudo-terminal whenever the sub-session opens, and the command's two streams
  are captured in full (and then dropped) whenever the command is handed over.
\<close>

theorem C10_RunCommand_projection:
  "fst (RunCommand E cli cmd tr) =
     (case fst (RunCommandWithOutput E cli cmd tr) of (exitStatus, stdoutBuf, stderrBuf, err) \<Rightarrow> (exitStatus, err)) \<and>
   snd (RunCommand E cli cmd tr) = snd (RunCommandWithOutput E cli cmd tr) \<and>
   (client_NewSession E tr (client cli) = Inr s \<longrightarrow>
      EvRequestPty s ''xterm'' 40 80 modes \<in> set (snd (RunCommand E cli cmd tr))) \<and>
   (attempt_of E cli cmd tr = Ran out so se \<longrightarrow>
      fst (snd (fst (RunCommandWithOutput E cli cmd tr))) = so \<and>
      fst (snd (snd (fst (RunCommandWithOutput E cli cmd tr)))) = se \<and>
      commands_sent (snd (RunCommand E cli cmd tr)) = commands_sent tr @ [cmd])"
proof (intro conjI impI)
  show "fst (RunCommand E cli cmd tr) =
     (case fst (RunCommandWithOutput E cli cmd tr) of (exitStatus, stdoutBuf, stderrBuf, err) \<Rightarrow> (exitStatus, err))"
    by (rule RunCommand_result)
  show "snd (RunCommand E cli cmd tr) = snd (RunCommandWithOutput E cli cmd tr)"
    by (rule RunCommand_log)
next
  assume "client_NewSession E tr (client cli) = Inr s"
  then show "EvRequestPty s ''xterm'' 40 80 modes \<in> set (snd (RunCommand E cli cmd tr))"
    by (simp add: RunCommand_log RunCommandWithOutput_log split: attempt.splits)
next
  assume a: "attempt_of E cli cmd tr = Ran out so se"
  then show "fst (snd (fst (RunCommandWithOutput E cli cmd tr))) = so"
    by (simp add: RunCommandWithOutput_result split: option.splits error.splits)
  from a show "fst (snd (snd (fst (RunCommandWithOutput E cli cmd tr)))) = se"
    by (simp add: RunCommandWithOutput_result split: option.splits error.splits)
  from a show "commands_sent (snd (RunCommand E cli cmd tr)) = commands_sent tr @ [cmd]"
    by (simp add: RunCommand_log RunCommandWithOutput_commands)
qed

theorem C10_RunCommand_projection_witness:
  "client_NewSession (ok_env (Exited 0)) [] (client \<lparr>client = 7\<rparr>) = Inr 0 \<and>
   EvRequestPty 0 ''xterm'' 40 80 modes \<in> set (snd (RunCommand (ok_env (Exited 0)) \<lparr>client = 7\<rparr> ''ls'' [])) \<and>
   attempt_of (ok_env (Exited 0)) \<lparr>client = 7\<rparr> ''ls'' [] = Ran (Exited 0) ''out'' ''err'' \<and>
   fst (snd (fst (RunCommandWithOutput (ok_env (Exited 0)) \<lparr>client = 7\<rparr> ''ls'' []))) = ''out'' \<and>
   fst (RunCommand (ok_env (Exited 0)) \<lparr>client = 7\<rparr> ''ls'' []) = (0, None) \<and>
   commands_sent (snd (RunCommand (ok_env (Exited 0)) \<lparr>client = 7\<rparr> ''ls'' [])) = [''ls'']"
proof -
  have h1: "client_NewSession (ok_env (Exited 0)) [] (client \<lparr>client = 7\<rparr>) = Inr 0"
    by (simp add: ok_env_def)
  have h2: "attempt_of (ok_env (Exited 0)) \<lparr>client = 7\<rparr> ''ls'' [] = Ran (Exited 0) ''out'' ''err''"
    by (simp add: attempt_of_def ok_env_def)
  have h3: "fst (RunCommandWithOutput (ok_env (Exited 0)) \<lparr>client = 7\<rparr> ''ls'' []) = (0, ''out'', ''err'', None)"
    by (simp add: RunCommandWithOutput_result h2)
  show ?thesis
    using h1 h2 h3
      C10_RunCommand_projection [where E = "ok_env (Exited 0)" and cli = "\<lparr>client = 7\<rparr>" and cmd = "''ls''"
        and tr = "[]" and s = 0 and out = "Exited 0" and so = "''out''" and se = "''err''"]
    by (auto simp: commands_sent_def)
qed

section \<open>Detached commands\<close>






section \<open>Uploads\<close>

lemma strings_Replace_all:
  "n < 0 \<Longrightarrow> strings_Replace s old new n = concat (map (\<lambda>c. if c = old then new else [c]) s)"
  by (induction s arbitrary: n) auto

lemma sh_quoted_escaped:
  "sh_quoted (Some w)
     (concat (map (\<lambda>c. if c = CHR 0x27 then [CHR 0x27, CHR 0x5C, CHR 0x27, CHR 0x27] else [c]) p) @ CHR 0x27 # rest)
   = sh_unquoted (Some (w @ p)) rest"
proof (induction p arbitrary: w)
  case Nil
  show ?case by simp
next
  case (Cons c p)
  show ?case
  proof (cases "c = CHR 0x27")
    case True
    then show ?thesis using Cons.IH [of "w @ [CHR 0x27]"] by simp
  next
    case False
    then show ?thesis using Cons.IH [of "w @ [c]"] by simp
  qed
qed

lemma sh_tokens_upload_line:
  "sh_tokens (''cat >'' @ [CHR 0x27] @ strings_Replace p (CHR 0x27) [CHR 0x27, CHR 0x5C, CHR 0x27, CHR 0x27] (- 1) @ [CHR 0x27])
     = Some [Word ''cat'', Operator (CHR ''>''), Word p]"
  using sh_quoted_escaped [of "[]" p "[]"]
  by (simp add: sh_tokens_def strings_Replace_all)

lemma writeToFile_commands:
  "commands_sent (snd (writeToFile E cli source destination tr)) =
     commands_sent tr @
       (case client_NewSession E tr (client cli) of
          Inl e \<Rightarrow> []
        | Inr s \<Rightarrow>
           (case session_StdinPipe E (tr @ [EvNewSession (client cli) (Inr s)]) s of
              Some e \<Rightarrow> []
            | None \<Rightarrow>
               [''cat >'' @ [CHR 0x27] @
                strings_Replace destination (CHR 0x27) [CHR 0x27, CHR 0x5C, CHR 0x27, CHR 0x27] (- 1) @ [CHR 0x27]]))"
  by (auto simp: writeToFile_def Client_NewSession_def Session_StdinPipe_def Session_Start_def Stdin_Close_def
      Session_Wait_def Session_Close_def Let_def commands_sent_append commands_sent_def
      split: sum.splits option.splits prod.splits)

lemma CopyFile_commands:
  "commands_sent (snd (CopyFile E cli source destination tr)) =
     (case os_Stat E tr source of
        Inl e \<Rightarrow> commands_sent tr
      | Inr st \<Rightarrow>
         (if \<not> IsRegular st then commands_sent tr
          else (case os_Open E (tr @ [EvStat source]) source of
                  Inl e \<Rightarrow> commands_sent tr
                | Inr file \<Rightarrow>
                    commands_sent (snd (writeToFile E cli file destination (tr @ [EvStat source, EvOpen source]))))))"
  by (auto simp: CopyFile_def commands_sent_append commands_sent_def split: sum.splits option.splits prod.splits)

text \<open>
  Claim C6. The destination path is escaped by replacing every single quote with the
  four characters \<open>'\'' \<close>; the remote shell reads the command line \<open>cat >'P'\<close> built from
  it as the word \<open>cat\<close>, the operator \<open>>\<close> and one word that is exactly the original path
  (the round trip: nothing of the path is read as shell syntax). \<open>WriteBytesToFile\<close> hands
  that command line to the remote shell, once, and no other, whenever the sub-session and
  its standard input are granted, and none otherwise. \<open>CopyFile\<close> does the same whenever,
  in addition, the local source is a regular file that can be opened, and hands over none
  otherwise.
\<close>

theorem C6_upload_command:
  "strings_Replace destination (CHR 0x27) [CHR 0x27, CHR 0x5C, CHR 0x27, CHR 0x27] (- 1) =
     concat (map (\<lambda>c. if c = CHR 0x27 then [CHR 0x27, CHR 0x5C, CHR 0x27, CHR 0x27] else [c]) destination) \<and>
   sh_tokens (''cat >'' @ [CHR 0x27] @
              strings_Replace destination (CHR 0x27) [CHR 0x27, CHR 0x5C, CHR 0x27, CHR 0x27] (- 1) @ [CHR 0x27])
     = Some [Word ''cat'', Operator (CHR ''>''), Word destination] \<and>
   commands_sent (snd (WriteBytesToFile E cli payload destination tr)) =
     commands_sent tr @
       (case client_NewSession E tr (client cli) of
          Inl e \<Rightarrow> []
        | Inr session \<Rightarrow>
           (case session_StdinPipe E (tr @ [EvNewSession (client cli) (Inr session)]) session of
              Some e \<Rightarrow> []
            | None \<Rightarrow>
               [''cat >'' @ [CHR 0x27] @
                strings_Replace destination (CHR 0x27) [CHR 0x27, CHR 0x5C, CHR 0x27, CHR 0x27] (- 1) @ [CHR 0x27]])) \<and>
   commands_sent (snd (CopyFile E cli localPath destination tr)) =
     commands_sent tr @
       (case os_Stat E tr localPath of
          Inl e \<Rightarrow> []
        | Inr st \<Rightarrow>
           (if \<not> IsRegular st then []
            else (case os_Open E (tr @ [EvStat localPath]) localPath of
                    Inl e \<Rightarrow> []
                  | Inr opened \<Rightarrow>
                     (case client_NewSession E (tr @ [EvStat localPath, EvOpen localPath]) (client cli) of
                        Inl e \<Rightarrow> []
                      | Inr session \<Rightarrow>
                         (case session_StdinPipe E
                                 (tr @ [EvStat localPath, EvOpen localPath, EvNewSession (client cli) (Inr session)])
                                 session of
                            Some e \<Rightarrow> []
                          | None \<Rightarrow>
                             [''cat >'' @ [CHR 0x27] @
                              strings_Replace destination (CHR 0x27) [CHR 0x27, CHR 0x5C, CHR 0x27, CHR 0x27] (- 1) @
                              [CHR 0x27]]))))) \<and>
   (client_NewSession E tr (client cli) = Inr s \<and>
    session_StdinPipe E (tr @ [EvNewSession (client cli) (Inr s)]) s = None \<longrightarrow>
      commands_sent (snd (WriteBytesToFile E cli payload destination tr)) =
        commands_sent tr @
          [''cat >'' @ [CHR 0x27] @
           strings_Replace destination (CHR 0x27) [CHR 0x27, CHR 0x5C, CHR 0x27, CHR 0x27] (- 1) @ [CHR 0x27]]) \<and>
   (os_Stat E tr localPath = Inr filestat \<and> IsRegular filestat \<and>
    os_Open E (tr @ [EvStat localPath]) localPath = Inr content \<and>
    client_NewSession E (tr @ [EvStat localPath, EvOpen localPath]) (client cli) = Inr s' \<and>
    session_StdinPipe E (tr @ [EvStat localPath, EvOpen localPath, EvNewSession (client cli) (Inr s')]) s' = None \<longrightarrow>
      commands_sent (snd (CopyFile E cli localPath destination tr)) =
        commands_sent tr @
          [''cat >'' @ [CHR 0x27] @
           strings_Replace destination (CHR 0x27) [CHR 0x27, CHR 0x5C, CHR 0x27, CHR 0x27] (- 1) @ [CHR 0x27]])"
proof -
  let ?line = "''cat >'' @ [CHR 0x27] @
           strings_Replace destination (CHR 0x27) [CHR 0x27, CHR 0x5C, CHR 0x27, CHR 0x27] (- 1) @ [CHR 0x27]"
  have a: "strings_Replace destination (CHR 0x27) [CHR 0x27, CHR 0x5C, CHR 0x27, CHR 0x27] (- 1) =
     concat (map (\<lambda>c. if c = CHR 0x27 then [CHR 0x27, CHR 0x5C, CHR 0x27, CHR 0x27] else [c]) destination)"
    by (rule strings_Replace_all) simp
  have b: "sh_tokens ?line = Some [Word ''cat'', Operator (CHR ''>''), Word destination]"
    by (rule sh_tokens_upload_line)
  have c: "commands_sent (snd (WriteBytesToFile E cli payload destination tr)) =
     commands_sent tr @
       (case client_NewSession E tr (client cli) of
          Inl e \<Rightarrow> []
        | Inr session \<Rightarrow>
           (case session_StdinPipe E (tr @ [EvNewSession (client cli) (Inr session)]) session of
              Some e \<Rightarrow> []
            | None \<Rightarrow> [?line]))"
    by (simp add: WriteBytesToFile_def writeToFile_commands)
  have d: "commands_sent (snd (CopyFile E cli localPath destination tr)) =
     commands_sent tr @
       (case os_Stat E tr localPath of
          Inl e \<Rightarrow> []
        | Inr st \<Rightarrow>
           (if \<not> IsRegular st then []
            else (case os_Open E (tr @ [EvStat localPath]) localPath of
                    Inl e \<Rightarrow> []
                  | Inr opened \<Rightarrow>
                     (case client_NewSession E (tr @ [EvStat localPath, EvOpen localPath]) (client cli) of
                        Inl e \<Rightarrow> []
                      | Inr session \<Rightarrow>
                         (case session_StdinPipe E
                                 (tr @ [EvStat localPath, EvOpen localPath, EvNewSession (client cli) (Inr session)])
                                 session of
                            Some e \<Rightarrow> []
                          | None \<Rightarrow> [?line])))))"
    by (simp add: CopyFile_commands writeToFile_commands commands_sent_append commands_sent_Nil
        commands_sent_Cons split: sum.splits option.splits)
  have e: "client_NewSession E tr (client cli) = Inr s \<and>
    session_StdinPipe E (tr @ [EvNewSession (client cli) (Inr s)]) s = None \<longrightarrow>
      commands_sent (snd (WriteBytesToFile E cli payload destination tr)) = commands_sent tr @ [?line]"
    by (simp add: c)
  have f: "os_Stat E tr localPath = Inr filestat \<and> IsRegular filestat \<and>
    os_Open E (tr @ [EvStat localPath]) localPath = Inr content \<and>
    client_NewSession E (tr @ [EvStat localPath, EvOpen localPath]) (client cli) = Inr s' \<and>
    session_StdinPipe E (tr @ [EvStat localPath, EvOpen localPath, EvNewSession (client cli) (Inr s')]) s' = None \<longrightarrow>
      commands_sent (snd (CopyFile E cli localPath destination tr)) = commands_sent tr @ [?line]"
    by (simp add: d)
  from a b c d e f show ?thesis by blast
qed

theorem C6_upload_command_witness:
  "client_NewSession (ok_env (Exited 0)) [] (client \<lparr>client = 7\<rparr>) = Inr 0 \<and>
   session_StdinPipe (ok_env (Exited 0)) ([] @ [EvNewSession (client \<lparr>client = 7\<rparr>) (Inr 0)]) 0 = None \<and>
   commands_sent (snd (WriteBytesToFile (ok_env (Exited 0)) \<lparr>client = 7\<rparr> ''abc'' ''/tmp/it's'' []))
     = [''cat >'' @ [CHR 0x27] @ ''/tmp/it'' @ [CHR 0x27, CHR 0x5C, CHR 0x27, CHR 0x27] @ ''s'' @ [CHR 0x27]] \<and>
   sh_tokens (''cat >'' @ [CHR 0x27] @ ''/tmp/it'' @ [CHR 0x27, CHR 0x5C, CHR 0x27, CHR 0x27] @ ''s'' @ [CHR 0x27])
     = Some [Word ''cat'', Operator (CHR ''>''), Word ''/tmp/it's''] \<and>
   os_Stat (ok_env (Exited 0)) [] ''m.scad'' = Inr \<lparr>Name = ''m.scad'', IsRegular = True\<rparr> \<and>
   os_Open (ok_env (Exited 0)) ([] @ [EvStat ''m.scad'']) ''m.scad'' = Inr ''data'' \<and>
   client_NewSession (ok_env (Exited 0)) ([] @ [EvStat ''m.scad'', EvOpen ''m.scad'']) (client \<lparr>client = 7\<rparr>) = Inr 2 \<and>
   commands_sent (snd (CopyFile (ok_env (Exited 0)) \<lparr>client = 7\<rparr> ''m.scad'' ''/tmp/it's'' []))
     = [''cat >'' @ [CHR 0x27] @ ''/tmp/it'' @ [CHR 0x27, CHR 0x5C, CHR 0x27, CHR 0x27] @ ''s'' @ [CHR 0x27]]"
proof -
  have h: "client_NewSession (ok_env (Exited 0)) [] (client \<lparr>client = 7\<rparr>) = Inr 0 \<and>
   session_StdinPipe (ok_env (Exited 0)) ([] @ [EvNewSession (client \<lparr>client = 7\<rparr>) (Inr 0)]) 0 = None"
    by (simp add: ok_env_def)
  have k: "os_Stat (ok_env (Exited 0)) [] ''m.scad'' = Inr \<lparr>Name = ''m.scad'', IsRegular = True\<rparr> \<and>
    IsRegular \<lparr>Name = ''m.scad'', IsRegular = True\<rparr> \<and>
    os_Open (ok_env (Exited 0)) ([] @ [EvStat ''m.scad'']) ''m.scad'' = Inr ''data'' \<and>
    client_NewSession (ok_env (Exited 0)) ([] @ [EvStat ''m.scad'', EvOpen ''m.scad'']) (client \<lparr>client = 7\<rparr>) = Inr 2 \<and>
    session_StdinPipe (ok_env (Exited 0))
      ([] @ [EvStat ''m.scad'', EvOpen ''m.scad'', EvNewSession (client \<lparr>client = 7\<rparr>) (Inr 2)]) 2 = None"
    by (simp add: ok_env_def)
  note t = C6_upload_command [where E = "ok_env (Exited 0)" and cli = "\<lparr>client = 7\<rparr>" and payload = "''abc''"
        and destination = "''/tmp/it's''" and tr = "[]" and s = 0 and localPath = "''m.scad''"
        and filestat = "\<lparr>Name = ''m.scad'', IsRegular = True\<rparr>" and content = "''data''" and s' = 2]
  have r: "strings_Replace ''/tmp/it's'' (CHR 0x27) [CHR 0x27, CHR 0x5C, CHR 0x27, CHR 0x27] (- 1) =
      ''/tmp/it'' @ [CHR 0x27, CHR 0x5C, CHR 0x27, CHR 0x27] @ ''s''"
    by simp
  from t h have 1: "commands_sent (snd (WriteBytesToFile (ok_env (Exited 0)) \<lparr>client = 7\<rparr> ''abc'' ''/tmp/it's'' []))
     = [''cat >'' @ [CHR 0x27] @ ''/tmp/it'' @ [CHR 0x27, CHR 0x5C, CHR 0x27, CHR 0x27] @ ''s'' @ [CHR 0x27]]"
    unfolding r by (simp add: commands_sent_def)
  from t have 2: "sh_tokens (''cat >'' @ [CHR 0x27] @ ''/tmp/it'' @ [CHR 0x27, CHR 0x5C, CHR 0x27, CHR 0x27] @ ''s'' @ [CHR 0x27])
     = Some [Word ''cat'', Operator (CHR ''>''), Word ''/tmp/it's'']"
    unfolding r by simp
  from t k have 3: "commands_sent (snd (CopyFile (ok_env (Exited 0)) \<lparr>client = 7\<rparr> ''m.scad'' ''/tmp/it's'' []))
     = [''cat >'' @ [CHR 0x27] @ ''/tmp/it'' @ [CHR 0x27, CHR 0x5C, CHR 0x27, CHR 0x27] @ ''s'' @ [CHR 0x27]]"
    unfolding r by (simp add: commands_sent_def)
  from h k 1 2 3 show ?thesis by simp
qed

section \<open>Opening the channel\<close>

text \<open>
  Claim C8. When the host-key text of the credentials does not parse as an authorized-key
  entry, \<open>NewSSHCmdClient\<close> returns an error and leaves the log as it was: no dial, and
  no other call to the outside, has been made.
\<close>

theorem C8_invalid_host_key:
  assumes "ssh_ParseAuthorizedKey E (SSHHostKey credentials) = Inl err"
  shows "NewSSHCmdClient E IPAddress credentials tr =
           (Returns (Inl (Errorf ''Error parsing host key : %s'' [ArgError (Some err)])), tr)"
  using assms by (simp add: NewSSHCmdClient_def)

theorem C8_invalid_host_key_witness:
  "ssh_ParseAuthorizedKey (ok_env (Exited 0)) (SSHHostKey \<lparr>SSHHostKey = [], SSHUsername = ''u'', SSHPEMFile = ''k.pem''\<rparr>)
     = Inl (LibError ''ssh: no key found'') \<and>
   NewSSHCmdClient (ok_env (Exited 0)) (IP ''203.0.113.5'') \<lparr>SSHHostKey = [], SSHUsername = ''u'', SSHPEMFile = ''k.pem''\<rparr> []
     = (Returns (Inl (Errorf ''Error parsing host key : %s'' [ArgError (Some (LibError ''ssh: no key found''))])), [])"
proof -
  have h: "ssh_ParseAuthorizedKey (ok_env (Exited 0)) (SSHHostKey \<lparr>SSHHostKey = [], SSHUsername = ''u'', SSHPEMFile = ''k.pem''\<rparr>)
     = Inl (LibError ''ssh: no key found'')"
    by (simp add: ok_env_def)
  show ?thesis
    using h C8_invalid_host_key [OF h, of "IP ''203.0.113.5''" "[]"] by simp
qed

lemma find_no_type: "a \<notin> Type ` set keys \<Longrightarrow> find (\<lambda>k. Type k = a) keys = None"
  by (induction keys) auto

lemma negotiate_single:
  "negotiate_host_key [a] keys = find (\<lambda>k. Type k = a) keys"
  by (simp add: negotiate_host_key_def find_no_type)

lemma ssh_Dial_log:
  "snd (ssh_Dial E network addr config tr) = tr @ [EvDial network addr config (fst (ssh_Dial E network addr config tr))]"
  by (simp add: ssh_Dial_def Let_def)

lemma ssh_Dial_accepts:
  assumes "fst (ssh_Dial E network addr config tr) = Inr c"
  shows "\<exists>k. negotiate_host_key (HostKeyAlgorithms config) (server_host_keys E tr addr) = Some k \<and>
             check_host_key (HostKeyCallback config) k = None"
  using assms by (simp add: ssh_Dial_def Let_def split: sum.splits option.splits)

lemma authMethod_log: "snd (authMethod E credentials tr) = tr @ [EvReadFile (SSHPEMFile credentials)]"
  by (simp add: authMethod_def split: sum.splits)

lemma NewSSHCmdClient_parsed:
  assumes "ssh_ParseAuthorizedKey E (SSHHostKey credentials) = Inr hostKey"
  shows "NewSSHCmdClient E IPAddress credentials tr =
     (case fst (authMethod E credentials tr) of
        Panics p \<Rightarrow> (Panics p, tr @ [EvReadFile (SSHPEMFile credentials)])
      | Returns am \<Rightarrow>
         (case fst (ssh_Dial E ''tcp'' (IP_String IPAddress @ '':22'')
                      \<lparr>User = SSHUsername credentials, Auth = [am],
                         HostKeyCallback = FixedHostKey hostKey, HostKeyAlgorithms = [Type hostKey]\<rparr>
                      (tr @ [EvReadFile (SSHPEMFile credentials)])) of
            res \<Rightarrow>
              (Returns (case res of
                          Inl err \<Rightarrow> Inl (Errorf ''unable to connect to SSH server: %s'' [ArgError (Some err)])
                        | Inr conn \<Rightarrow> Inr \<lparr>client = conn\<rparr>),
               tr @ [EvReadFile (SSHPEMFile credentials),
                     EvDial ''tcp'' (IP_String IPAddress @ '':22'')
                       \<lparr>User = SSHUsername credentials, Auth = [am],
                          HostKeyCallback = FixedHostKey hostKey, HostKeyAlgorithms = [Type hostKey]\<rparr> res])))"
proof (cases "authMethod E credentials tr")
  case (Pair o1 tr1)
  then have tr1: "tr1 = tr @ [EvReadFile (SSHPEMFile credentials)]"
    using authMethod_log [of E credentials tr] by simp
  show ?thesis
  proof (cases o1)
    case (Panics p)
    with Pair tr1 assms show ?thesis by (simp add: NewSSHCmdClient_def)
  next
    case (Returns am)
    obtain res tr2 where d: "ssh_Dial E ''tcp'' (IP_String IPAddress @ '':22'')
                      \<lparr>User = SSHUsername credentials, Auth = [am],
                         HostKeyCallback = FixedHostKey hostKey, HostKeyAlgorithms = [Type hostKey]\<rparr>
                      (tr @ [EvReadFile (SSHPEMFile credentials)]) = (res, tr2)"
      by (cases "ssh_Dial E ''tcp'' (IP_String IPAddress @ '':22'')
                      \<lparr>User = SSHUsername credentials, Auth = [am],
                         HostKeyCallback = FixedHostKey hostKey, HostKeyAlgorithms = [Type hostKey]\<rparr>
                      (tr @ [EvReadFile (SSHPEMFile credentials)])")
    have tr2: "tr2 = tr @ [EvReadFile (SSHPEMFile credentials),
                     EvDial ''tcp'' (IP_String IPAddress @ '':22'')
                       \<lparr>User = SSHUsername credentials, Auth = [am],
                          HostKeyCallback = FixedHostKey hostKey, HostKeyAlgorithms = [Type hostKey]\<rparr> res]"
      using ssh_Dial_log [of E "''tcp''" "IP_String IPAddress @ '':22''"
          "\<lparr>User = SSHUsername credentials, Auth = [am],
             HostKeyCallback = FixedHostKey hostKey, HostKeyAlgorithms = [Type hostKey]\<rparr>"
          "tr @ [EvReadFile (SSHPEMFile credentials)]"] d
      by simp
    show ?thesis
      using Pair tr1 Returns assms d tr2
      by (cases res) (simp_all add: NewSSHCmdClient_def)
  qed
qed

text \<open>
  Claim C1. For every address and credentials whose host key parses, \<open>NewSSHCmdClient\<close>
  dials at most once, with a configuration whose host-key callback is the fixed-key
  check against the parsed key (it accepts a presented key exactly when its encoding is
  that of the parsed key) and whose host-key algorithms are the single type of that key.
  A client is returned only if the server holds, and presents for that algorithm, a key of
  that type with that encoding; if the key it presents differs, or it holds none of that
  type, the call fails with the connection error (or has panicked on the key file before
  dialling). When the host key does not parse, nothing is dialled. No input yields a
  client on an unverified key.
\<close>

theorem C1_fixed_host_key:
  "(case ssh_ParseAuthorizedKey E (SSHHostKey credentials) of
      Inl err \<Rightarrow> snd (NewSSHCmdClient E IPAddress credentials tr) = tr
    | Inr hostKey \<Rightarrow>
        (check_host_key (FixedHostKey hostKey) presented = None \<longleftrightarrow> Marshal presented = Marshal hostKey) \<and>
        ((\<exists>p. NewSSHCmdClient E IPAddress credentials tr = (Panics p, tr @ [EvReadFile (SSHPEMFile credentials)])) \<or>
         (\<exists>am res.
            NewSSHCmdClient E IPAddress credentials tr =
              (Returns (case res of
                          Inl err \<Rightarrow> Inl (Errorf ''unable to connect to SSH server: %s'' [ArgError (Some err)])
                        | Inr conn \<Rightarrow> Inr \<lparr>client = conn\<rparr>),
               tr @ [EvReadFile (SSHPEMFile credentials),
                     EvDial ''tcp'' (IP_String IPAddress @ '':22'')
                       \<lparr>User = SSHUsername credentials, Auth = [am],
                          HostKeyCallback = FixedHostKey hostKey, HostKeyAlgorithms = [Type hostKey]\<rparr> res]))) \<and>
        (\<forall>cli. fst (NewSSHCmdClient E IPAddress credentials tr) = Returns (Inr cli) \<longrightarrow>
           (\<exists>k \<in> set (server_host_keys E (tr @ [EvReadFile (SSHPEMFile credentials)]) (IP_String IPAddress @ '':22'')).
              Type k = Type hostKey \<and> Marshal k = Marshal hostKey \<and>
              negotiate_host_key [Type hostKey]
                (server_host_keys E (tr @ [EvReadFile (SSHPEMFile credentials)]) (IP_String IPAddress @ '':22''))
                = Some k)) \<and>
        ((\<forall>k. negotiate_host_key [Type hostKey]
                 (server_host_keys E (tr @ [EvReadFile (SSHPEMFile credentials)]) (IP_String IPAddress @ '':22''))
                 = Some k \<longrightarrow> Marshal k \<noteq> Marshal hostKey) \<longrightarrow>
           (\<exists>e. fst (NewSSHCmdClient E IPAddress credentials tr) = Panics e \<or>
                fst (NewSSHCmdClient E IPAddress credentials tr) =
                  Returns (Inl (Errorf ''unable to connect to SSH server: %s'' [ArgError (Some e)])))))"
proof (cases "ssh_ParseAuthorizedKey E (SSHHostKey credentials)")
  case (Inl err)
  then show ?thesis by (simp add: NewSSHCmdClient_def)
next
  case (Inr hostKey)
  let ?tr1 = "tr @ [EvReadFile (SSHPEMFile credentials)]"
  let ?addr = "IP_String IPAddress @ '':22''"
  let ?keys = "server_host_keys E ?tr1 ?addr"
  let ?cfg = "\<lambda>am. \<lparr>User = SSHUsername credentials, Auth = [am],
                 HostKeyCallback = FixedHostKey hostKey, HostKeyAlgorithms = [Type hostKey]\<rparr>"
  let ?N = "NewSSHCmdClient E IPAddress credentials tr"
  note N = NewSSHCmdClient_parsed [OF Inr, of IPAddress tr]
  have a: "check_host_key (FixedHostKey hostKey) presented = None \<longleftrightarrow> Marshal presented = Marshal hostKey"
    by simp
  have b: "(\<exists>p. ?N = (Panics p, ?tr1)) \<or>
         (\<exists>am res.
            ?N = (Returns (case res of
                          Inl err \<Rightarrow> Inl (Errorf ''unable to connect to SSH server: %s'' [ArgError (Some err)])
                        | Inr conn \<Rightarrow> Inr \<lparr>client = conn\<rparr>),
               tr @ [EvReadFile (SSHPEMFile credentials), EvDial ''tcp'' ?addr (?cfg am) res]))"
  proof (cases "fst (authMethod E credentials tr)")
    case (Panics p)
    with N show ?thesis by simp
  next
    case (Returns am)
    with N show ?thesis by auto
  qed
  have ok: "\<exists>k. negotiate_host_key [Type hostKey] ?keys = Some k \<and> Marshal k = Marshal hostKey"
    if "fst ?N = Returns (Inr cli)" for cli
  proof (cases "fst (authMethod E credentials tr)")
    case (Panics p)
    with N that show ?thesis by simp
  next
    case (Returns am)
    with N that obtain c where "fst (ssh_Dial E ''tcp'' ?addr (?cfg am) ?tr1) = Inr c"
      by (cases "fst (ssh_Dial E ''tcp'' ?addr (?cfg am) ?tr1)") simp_all
    from ssh_Dial_accepts [OF this] show ?thesis
      by (auto split: if_splits)
  qed
  have c: "\<exists>k \<in> set ?keys. Type k = Type hostKey \<and> Marshal k = Marshal hostKey \<and>
              negotiate_host_key [Type hostKey] ?keys = Some k"
    if "fst ?N = Returns (Inr cli)" for cli
  proof -
    from ok [OF that] obtain k where k: "negotiate_host_key [Type hostKey] ?keys = Some k"
      and m: "Marshal k = Marshal hostKey" by blast
    from k have "k \<in> set ?keys \<and> Type k = Type hostKey"
      unfolding negotiate_single by (auto simp: find_Some_iff)
    with k m show ?thesis by blast
  qed
  have d: "\<exists>e. fst ?N = Panics e \<or>
                fst ?N = Returns (Inl (Errorf ''unable to connect to SSH server: %s'' [ArgError (Some e)]))"
    if h: "\<forall>k. negotiate_host_key [Type hostKey] ?keys = Some k \<longrightarrow> Marshal k \<noteq> Marshal hostKey"
  proof (cases "fst (authMethod E credentials tr)")
    case (Panics p)
    with N show ?thesis by simp
  next
    case (Returns am)
    show ?thesis
    proof (cases "fst (ssh_Dial E ''tcp'' ?addr (?cfg am) ?tr1)")
      case (Inl e)
      with N Returns show ?thesis by simp
    next
      case (Inr conn)
      with N Returns have "fst ?N = Returns (Inr \<lparr>client = conn\<rparr>)" by simp
      from ok [OF this] h show ?thesis by blast
    qed
  qed
  show ?thesis
    unfolding Inr sum.case
    using a b c d by blast
qed

theorem C1_fixed_host_key_witness:
  "NewSSHCmdClient (ok_env (Exited 0)) (IP ''203.0.113.5'') creds_K [] =
     (Returns (Inr \<lparr>client = 7\<rparr>),
      [EvReadFile ''k.pem'',
       EvDial ''tcp'' ''203.0.113.5:22''
         \<lparr>User = ''ec2-user'', Auth = [PublicKeys (Signer ''pem'')],
            HostKeyCallback = FixedHostKey \<lparr>Type = ''ssh-ed25519'', Marshal = ''K''\<rparr>,
            HostKeyAlgorithms = [''ssh-ed25519'']\<rparr> (Inr 7)]) \<and>
   negotiate_host_key [''ssh-ed25519''] (server_host_keys (ok_env (Exited 0)) [EvReadFile ''k.pem''] ''203.0.113.5:22'')
     = Some \<lparr>Type = ''ssh-ed25519'', Marshal = ''K''\<rparr> \<and>
   fst (NewSSHCmdClient (ok_env (Exited 0)) (IP ''203.0.113.5'') creds_X []) =
     Returns (Inl (Errorf ''unable to connect to SSH server: %s'' [ArgError (Some (LibError ''ssh: host key mismatch''))]))"
proof -
  have p1: "ssh_ParseAuthorizedKey (ok_env (Exited 0)) (SSHHostKey creds_K) = Inr \<lparr>Type = ''ssh-ed25519'', Marshal = ''K''\<rparr>"
    by (simp add: ok_env_def creds_K_def)
  have p2: "ssh_ParseAuthorizedKey (ok_env (Exited 0)) (SSHHostKey creds_X) = Inr \<lparr>Type = ''ssh-ed25519'', Marshal = ''X''\<rparr>"
    by (simp add: ok_env_def creds_X_def)
  have n: "negotiate_host_key [''ssh-ed25519''] (server_host_keys (ok_env (Exited 0)) [EvReadFile ''k.pem''] ''203.0.113.5:22'')
     = Some \<lparr>Type = ''ssh-ed25519'', Marshal = ''K''\<rparr>"
    by (simp add: ok_env_def negotiate_host_key_def)
  have r1: "NewSSHCmdClient (ok_env (Exited 0)) (IP ''203.0.113.5'') creds_K [] =
     (Returns (Inr \<lparr>client = 7\<rparr>),
      [EvReadFile ''k.pem'',
       EvDial ''tcp'' ''203.0.113.5:22''
         \<lparr>User = ''ec2-user'', Auth = [PublicKeys (Signer ''pem'')],
            HostKeyCallback = FixedHostKey \<lparr>Type = ''ssh-ed25519'', Marshal = ''K''\<rparr>,
            HostKeyAlgorithms = [''ssh-ed25519'']\<rparr> (Inr 7)])"
    by (simp add: NewSSHCmdClient_def authMethod_def ssh_Dial_def Let_def negotiate_host_key_def ok_env_def creds_K_def)
  have r2: "fst (NewSSHCmdClient (ok_env (Exited 0)) (IP ''203.0.113.5'') creds_X []) \<noteq> Panics e" for e
    by (simp add: NewSSHCmdClient_def authMethod_def ssh_Dial_def Let_def negotiate_host_key_def ok_env_def creds_X_def)
  note t1 = C1_fixed_host_key [where E = "ok_env (Exited 0)" and credentials = creds_K and IPAddress = "IP ''203.0.113.5''"
      and tr = "[]" and presented = "\<lparr>Type = ''ssh-ed25519'', Marshal = ''K''\<rparr>"]
  note t2 = C1_fixed_host_key [where E = "ok_env (Exited 0)" and credentials = creds_X and IPAddress = "IP ''203.0.113.5''"
      and tr = "[]" and presented = "\<lparr>Type = ''ssh-ed25519'', Marshal = ''K''\<rparr>"]
  have k: "SSHPEMFile creds_X = ''k.pem''" "SSHPEMFile creds_K = ''k.pem''"
    by (simp_all add: creds_X_def creds_K_def)
  from t2 have "\<exists>e. fst (NewSSHCmdClient (ok_env (Exited 0)) (IP ''203.0.113.5'') creds_X []) = Panics e \<or>
       fst (NewSSHCmdClient (ok_env (Exited 0)) (IP ''203.0.113.5'') creds_X []) =
         Returns (Inl (Errorf ''unable to connect to SSH server: %s'' [ArgError (Some e)]))"
    unfolding p2 sum.case using n by (simp add: k)
  then have "\<exists>e. fst (NewSSHCmdClient (ok_env (Exited 0)) (IP ''203.0.113.5'') creds_X []) =
         Returns (Inl (Errorf ''unable to connect to SSH server: %s'' [ArgError (Some e)]))"
    using r2 by blast
  moreover have "fst (NewSSHCmdClient (ok_env (Exited 0)) (IP ''203.0.113.5'') creds_X []) =
     Returns (Inl (Errorf ''unable to connect to SSH server: %s'' [ArgError (Some (LibError ''ssh: host key mismatch''))]))"
    by (simp add: NewSSHCmdClient_def authMethod_def ssh_Dial_def Let_def negotiate_host_key_def ok_env_def creds_X_def)
  ultimately show ?thesis using r1 n by simp
qed

section \<open>Making the instance ready, and closing it\<close>

lemma open_conns_append: "open_conns (tr @ evs) = foldl conn_step (open_conns tr) evs"
  by (simp add: open_conns_def)

lemma RunCommand_conns:
  "open_conns (snd (RunCommand E cli cmd tr)) = open_conns tr \<and>
   filter is_conn_close (snd (RunCommand E cli cmd tr)) = filter is_conn_close tr"
  by (simp add: RunCommand_log RunCommandWithOutput_log open_conns_append split: sum.splits attempt.splits)

lemma startInstance_conns:
  "open_conns (snd (startInstance E ins tr)) = open_conns tr \<and>
   filter is_conn_close (snd (startInstance E ins tr)) = filter is_conn_close tr"
  by (simp add: startInstance_def Let_def open_conns_append split: option.splits)

lemma getIPAddress_conns:
  "open_conns (snd (snd (getIPAddress E ins tr))) = open_conns tr \<and>
   filter is_conn_close (snd (snd (getIPAddress E ins tr))) = filter is_conn_close tr \<and>
   cmdClient (fst (snd (getIPAddress E ins tr))) = cmdClient ins"
  by (simp add: getIPAddress_def Let_def open_conns_append split: sum.splits list.splits option.splits)

lemma NewSSHCmdClient_conns:
  "filter is_conn_close (snd (NewSSHCmdClient E IPAddress credentials tr)) = filter is_conn_close tr \<and>
   open_conns (snd (NewSSHCmdClient E IPAddress credentials tr)) =
     open_conns tr @ (case fst (NewSSHCmdClient E IPAddress credentials tr) of
                        Returns (Inr cli) \<Rightarrow> [client cli] | _ \<Rightarrow> [])"
proof (cases "ssh_ParseAuthorizedKey E (SSHHostKey credentials)")
  case (Inl err)
  then show ?thesis by (simp add: NewSSHCmdClient_def)
next
  case (Inr hostKey)
  show ?thesis
    unfolding NewSSHCmdClient_parsed [OF Inr]
    by (simp add: open_conns_append split: outcome.splits sum.splits)
qed

lemma EC2RemoteClient_RunCommand_conns:
  "open_conns (snd (EC2RemoteClient_RunCommand E ins cmd tr)) = open_conns tr \<and>
   filter is_conn_close (snd (EC2RemoteClient_RunCommand E ins cmd tr)) = filter is_conn_close tr"
  using RunCommand_conns by (simp add: EC2RemoteClient_RunCommand_def split_beta split: option.splits)

lemma makeReady_conns:
  assumes "cmdClient ins = None"
  shows "filter is_conn_close (snd (snd (makeReady E ins tr))) = filter is_conn_close tr \<and>
         (\<forall>r. fst (makeReady E ins tr) = Returns r \<longrightarrow>
            open_conns (snd (snd (makeReady E ins tr))) =
              open_conns tr @ (case cmdClient (fst (snd (makeReady E ins tr))) of None \<Rightarrow> [] | Some cli \<Rightarrow> [client cli])) \<and>
         (\<forall>err cli. fst (makeReady E ins tr) = Returns (Some err) \<and>
             cmdClient (fst (snd (makeReady E ins tr))) = Some cli \<longrightarrow>
            (\<exists>e. err = Errorf ''Error running commands on instance : %s'' [ArgError e]))"
proof (cases "ec2_DescribeInstanceStatus E tr (InstanceID ins)")
  case (Inl err)
  with assms show ?thesis by (simp add: makeReady_def Let_def open_conns_append)
next
  case (Inr statuses)
  let ?tr0 = "tr @ [EvDescribeInstanceStatus (InstanceID ins)]"
  define st where "st = (if (case statuses of [] \<Rightarrow> True | name # ss \<Rightarrow> name \<noteq> ''running'')
                    then startInstance E ins ?tr0 else (None, ?tr0))"
  have st: "open_conns (snd st) = open_conns tr \<and> filter is_conn_close (snd st) = filter is_conn_close tr"
    using startInstance_conns [of E ins ?tr0] by (simp add: st_def open_conns_append)
  have M: "makeReady E ins tr =
     (case st of
        (Some err, tr1) \<Rightarrow>
          (Returns (Some (Errorf ''Error starting instance : %s'' [ArgError (Some err)])), ins, tr1)
      | (None, tr1) \<Rightarrow>
         (case getIPAddress E ins tr1 of
            (Panics p, ins1, tr2) \<Rightarrow> (Panics p, ins1, tr2)
          | (Returns (Some err), ins1, tr2) \<Rightarrow>
              (Returns (Some (Errorf ''Error getting IP address : %s'' [ArgError (Some err)])), ins1, tr2)
          | (Returns None, ins1, tr2) \<Rightarrow>
             (case NewSSHCmdClient E (instanceIP ins1) (sshCredentials ins1) tr2 of
                (Panics p, tr3) \<Rightarrow> (Panics p, ins1, tr3)
              | (Returns (Inl err), tr3) \<Rightarrow> (Returns (Some err), ins1\<lparr>cmdClient := None\<rparr>, tr3)
              | (Returns (Inr cli), tr3) \<Rightarrow>
                 (let ins2 = ins1\<lparr>cmdClient := Some cli\<rparr>
                  in (case EC2RemoteClient_RunCommand E ins2 ''true'' tr3 of
                        (Panics p, tr4) \<Rightarrow> (Panics p, ins2, tr4)
                      | (Returns (exitStatus, err), tr4) \<Rightarrow>
                         (if err \<noteq> None \<or> exitStatus \<noteq> 0
                          then (Returns (Some (Errorf ''Error running commands on instance : %s'' [ArgError err])),
                                ins2, tr4)
                          else (Returns err, ins2, tr4)))))))"
    using Inr by (simp add: makeReady_def Let_def st_def)
  obtain r1 tr1 where s1: "st = (r1, tr1)" by (cases st)
  with st have c1: "open_conns tr1 = open_conns tr" "filter is_conn_close tr1 = filter is_conn_close tr"
    by simp_all
  show ?thesis
  proof (cases r1)
    case (Some err)
    with M s1 c1 assms show ?thesis by simp
  next
    case None
    obtain r2 ins1 tr2 where g: "getIPAddress E ins tr1 = (r2, ins1, tr2)"
      by (cases "getIPAddress E ins tr1") auto
    with getIPAddress_conns [of E ins tr1] c1 assms
    have c2: "open_conns tr2 = open_conns tr" "filter is_conn_close tr2 = filter is_conn_close tr"
      "cmdClient ins1 = None"
      by simp_all
    show ?thesis
    proof (cases r2)
      case (Panics p)
      with M s1 None g c2 show ?thesis by simp
    next
      case (Returns e2)
      show ?thesis
      proof (cases e2)
        case (Some err)
        with M s1 None g c2 Returns show ?thesis by simp
      next
        case None2: None
        obtain r3 tr3 where n: "NewSSHCmdClient E (instanceIP ins1) (sshCredentials ins1) tr2 = (r3, tr3)"
          by (cases "NewSSHCmdClient E (instanceIP ins1) (sshCredentials ins1) tr2")
        with NewSSHCmdClient_conns [of E "instanceIP ins1" "sshCredentials ins1" tr2] c2
        have c3: "filter is_conn_close tr3 = filter is_conn_close tr"
          "open_conns tr3 = open_conns tr @ (case r3 of Returns (Inr cli) \<Rightarrow> [client cli] | _ \<Rightarrow> [])"
          by simp_all
        show ?thesis
        proof (cases r3)
          case (Panics p)
          with M s1 None g Returns None2 n c3 show ?thesis by simp
        next
          case R3: (Returns x3)
          show ?thesis
          proof (cases x3)
            case (Inl err)
            with M s1 None g Returns None2 n c3 R3 show ?thesis by simp
          next
            case (Inr cli)
            let ?ins2 = "ins1\<lparr>cmdClient := Some cli\<rparr>"
            obtain r4 tr4 where p: "EC2RemoteClient_RunCommand E ?ins2 ''true'' tr3 = (r4, tr4)"
              by (cases "EC2RemoteClient_RunCommand E ?ins2 ''true'' tr3")
            with EC2RemoteClient_RunCommand_conns [of E ?ins2 "''true''" tr3] c3 R3 Inr
            have c4: "filter is_conn_close tr4 = filter is_conn_close tr"
              "open_conns tr4 = open_conns tr @ [client cli]"
              by simp_all
            show ?thesis
            proof (cases r4)
              case (Panics p')
              with M s1 None g Returns None2 n R3 Inr p c4 show ?thesis by (simp add: Let_def)
            next
              case R4: (Returns x4)
              obtain exitStatus err where x4: "x4 = (exitStatus, err)" by (cases x4)
              with M s1 None g Returns None2 n R3 Inr p c4 R4 show ?thesis by (simp add: Let_def)
            qed
          qed
        qed
      qed
    qed
  qed
qed

lemma NewEC2RemoteClient_probe_fails:
  "NewEC2RemoteClient (ok_env (Exited 1)) ''i-0'' creds_K [] =
     (Returns (Some \<lparr>InstanceID = ''i-0'', instanceIP = IP ''203.0.113.5'', sshCredentials = creds_K,
                      cmdClient = Some \<lparr>client = 7\<rparr>\<rparr>,
               Some (Errorf ''Error running commands on instance : %s'' [ArgError None])),
      [EvAwsNewSession, EvDescribeInstanceStatus ''i-0'', EvDescribeInstances ''i-0'', EvReadFile ''k.pem'',
       EvDial ''tcp'' ''203.0.113.5:22''
         \<lparr>User = ''ec2-user'', Auth = [PublicKeys (Signer ''pem'')],
            HostKeyCallback = FixedHostKey \<lparr>Type = ''ssh-ed25519'', Marshal = ''K''\<rparr>,
            HostKeyAlgorithms = [''ssh-ed25519'']\<rparr> (Inr 7),
       EvNewSession 7 (Inr 5), EvRequestPty 5 ''xterm'' 40 80 modes, EvRun 5 ''true'', EvSessionClose 5])"
  by (simp add: NewEC2RemoteClient_def makeReady_def getIPAddress_def NewSSHCmdClient_def authMethod_def
      ssh_Dial_def negotiate_host_key_def EC2RemoteClient_RunCommand_def RunCommand_def
      RunCommandWithOutput_def Client_NewSession_def Session_RequestPty_def Session_Run_def
      Session_Close_def ExitStatus_def Let_def ok_env_def creds_K_def)

lemma NewEC2RemoteClient_not_found:
  "NewEC2RemoteClient ((ok_env (Exited 0))\<lparr>ec2_DescribeInstanceStatus := \<lambda>tr i. Inl (LibError ''InvalidInstanceID.NotFound'')\<rparr>)
       ''i-0'' creds_K [] =
     (Returns (Some \<lparr>InstanceID = ''i-0'', instanceIP = IPnil, sshCredentials = creds_K, cmdClient = None\<rparr>,
               Some (Errorf ''Error getting instance status : %s'' [ArgError (Some (LibError ''InvalidInstanceID.NotFound''))])),
      [EvAwsNewSession, EvDescribeInstanceStatus ''i-0''])"
  by (simp add: NewEC2RemoteClient_def makeReady_def Let_def ok_env_def)

text \<open>
  Claim C5, as stated, fails: when the probe exits with a non-zero status after the
  Channel has been opened, \<open>NewEC2RemoteClient\<close> returns the error together with a client
  that holds the Channel, the connection is still open, and no close has been issued.
\<close>

theorem C5_probe_failure_counterexample:
  "fst (NewEC2RemoteClient (ok_env (Exited 1)) ''i-0'' creds_K []) =
     Returns (Some \<lparr>InstanceID = ''i-0'', instanceIP = IP ''203.0.113.5'', sshCredentials = creds_K,
                     cmdClient = Some \<lparr>client = 7\<rparr>\<rparr>,
              Some (Errorf ''Error running commands on instance : %s'' [ArgError None])) \<and>
   open_conns (snd (NewEC2RemoteClient (ok_env (Exited 1)) ''i-0'' creds_K [])) = [7] \<and>
   filter is_conn_close (snd (NewEC2RemoteClient (ok_env (Exited 1)) ''i-0'' creds_K [])) = []"
  by (simp add: NewEC2RemoteClient_probe_fails open_conns_def)

text \<open>
  Claim C5, amended. \<open>NewEC2RemoteClient\<close> never closes a transport. When it fails
  before the Channel has been opened (steps 1 to 4), no connection has been opened by the
  call and the client it returns, if any, holds none: nothing is leaked. When it fails
  with a client that holds a Channel, the failure is the probe's, that connection is
  still open and is handed to the caller with the error: releasing it is left to the
  caller.
\<close>

theorem C5_failure_and_channel:
  assumes "NewEC2RemoteClient E ID credentials tr = (Returns (ins, Some err), tr')"
  shows "filter is_conn_close tr' = filter is_conn_close tr \<and>
         (case ins of
            None \<Rightarrow> open_conns tr' = open_conns tr
          | Some i \<Rightarrow>
             (case cmdClient i of
                None \<Rightarrow> open_conns tr' = open_conns tr
              | Some cli \<Rightarrow>
                  open_conns tr' = open_conns tr @ [client cli] \<and>
                  (\<exists>e. err = Errorf ''Error running commands on instance : %s'' [ArgError e])))"
proof (cases "aws_NewSession E tr")
  case (Some e)
  with assms show ?thesis by (auto simp: NewEC2RemoteClient_def open_conns_append)
next
  case None
  let ?ins0 = "\<lparr>InstanceID = ID, instanceIP = IPnil, sshCredentials = credentials, cmdClient = None\<rparr>"
  let ?M = "makeReady E ?ins0 (tr @ [EvAwsNewSession])"
  obtain r i t where M: "?M = (r, i, t)" by (cases ?M) auto
  from assms None M have r: "r = Returns (Some err)" and i: "ins = Some i" and t: "tr' = t"
    by (auto simp: NewEC2RemoteClient_def split: outcome.splits)
  have c: "cmdClient ?ins0 = None" by simp
  from makeReady_conns [OF c, of E "tr @ [EvAwsNewSession]"] M r
  have "filter is_conn_close t = filter is_conn_close tr"
    and "open_conns t = open_conns tr @ (case cmdClient i of None \<Rightarrow> [] | Some cli \<Rightarrow> [client cli])"
    and "\<forall>cli. cmdClient i = Some cli \<longrightarrow> (\<exists>e. err = Errorf ''Error running commands on instance : %s'' [ArgError e])"
    by (simp_all add: open_conns_append)
  with i t show ?thesis by (auto split: option.splits)
qed

theorem C5_failure_and_channel_witness:
  "NewEC2RemoteClient (ok_env (Exited 1)) ''i-0'' creds_K [] =
     (Returns (Some \<lparr>InstanceID = ''i-0'', instanceIP = IP ''203.0.113.5'', sshCredentials = creds_K,
                      cmdClient = Some \<lparr>client = 7\<rparr>\<rparr>,
               Some (Errorf ''Error running commands on instance : %s'' [ArgError None])),
      snd (NewEC2RemoteClient (ok_env (Exited 1)) ''i-0'' creds_K [])) \<and>
   filter is_conn_close (snd (NewEC2RemoteClient (ok_env (Exited 1)) ''i-0'' creds_K [])) = [] \<and>
   open_conns (snd (NewEC2RemoteClient (ok_env (Exited 1)) ''i-0'' creds_K [])) = [7] \<and>
   NewEC2RemoteClient ((ok_env (Exited 0))\<lparr>ec2_DescribeInstanceStatus := \<lambda>tr i. Inl (LibError ''InvalidInstanceID.NotFound'')\<rparr>)
       ''i-0'' creds_K [] =
     (Returns (Some \<lparr>InstanceID = ''i-0'', instanceIP = IPnil, sshCredentials = creds_K, cmdClient = None\<rparr>,
               Some (Errorf ''Error getting instance status : %s'' [ArgError (Some (LibError ''InvalidInstanceID.NotFound''))])),
      [EvAwsNewSession, EvDescribeInstanceStatus ''i-0'']) \<and>
   open_conns [EvAwsNewSession, EvDescribeInstanceStatus ''i-0''] = []"
proof -
  have h: "NewEC2RemoteClient (ok_env (Exited 1)) ''i-0'' creds_K [] =
     (Returns (Some \<lparr>InstanceID = ''i-0'', instanceIP = IP ''203.0.113.5'', sshCredentials = creds_K,
                      cmdClient = Some \<lparr>client = 7\<rparr>\<rparr>,
               Some (Errorf ''Error running commands on instance : %s'' [ArgError None])),
      snd (NewEC2RemoteClient (ok_env (Exited 1)) ''i-0'' creds_K []))"
    by (simp add: NewEC2RemoteClient_probe_fails)
  have 1: "filter is_conn_close (snd (NewEC2RemoteClient (ok_env (Exited 1)) ''i-0'' creds_K [])) = [] \<and>
           open_conns (snd (NewEC2RemoteClient (ok_env (Exited 1)) ''i-0'' creds_K [])) = [7]"
    using C5_failure_and_channel [OF h] by (simp add: open_conns_def)
  have 2: "open_conns [EvAwsNewSession, EvDescribeInstanceStatus ''i-0''] = []"
    using C5_failure_and_channel [OF NewEC2RemoteClient_not_found] by (simp add: open_conns_def)
  from h 1 2 NewEC2RemoteClient_not_found show ?thesis by simp
qed

lemma NewEC2RemoteClient_ready:
  "NewEC2RemoteClient (ok_env (Exited 0)) ''i-0'' creds_K [] =
     (Returns (Some ready_ins, None),
      [EvAwsNewSession, EvDescribeInstanceStatus ''i-0'', EvDescribeInstances ''i-0'', EvReadFile ''k.pem'',
       EvDial ''tcp'' ''203.0.113.5:22''
         \<lparr>User = ''ec2-user'', Auth = [PublicKeys (Signer ''pem'')],
            HostKeyCallback = FixedHostKey \<lparr>Type = ''ssh-ed25519'', Marshal = ''K''\<rparr>,
            HostKeyAlgorithms = [''ssh-ed25519'']\<rparr> (Inr 7),
       EvNewSession 7 (Inr 5), EvRequestPty 5 ''xterm'' 40 80 modes, EvRun 5 ''true'', EvSessionClose 5])"
  by (simp add: NewEC2RemoteClient_def makeReady_def getIPAddress_def NewSSHCmdClient_def authMethod_def
      ssh_Dial_def negotiate_host_key_def EC2RemoteClient_RunCommand_def RunCommand_def
      RunCommandWithOutput_def Client_NewSession_def Session_RequestPty_def Session_Run_def
      Session_Close_def ExitStatus_def Let_def ok_env_def creds_K_def ready_ins_def)

lemma open_conns_ready_world: "open_conns ready_world = [7]"
  by (simp add: ready_world_def NewEC2RemoteClient_ready open_conns_def)

text \<open>
  Claim C9, as stated, fails: \<open>Close\<close> is not guarded, so a second call closes the
  transport again, and a connection that refuses to be closed twice (as Go's network
  connections do) makes the second call return an error where the first returned nil.
\<close>

theorem C9_second_close_counterexample:
  "fst (NewEC2RemoteClient (ok_env (Exited 0)) ''i-0'' creds_K []) = Returns (Some ready_ins, None) \<and>
   fst (EC2RemoteClient_Close (ok_env (Exited 0)) ready_ins ready_world) = Returns None \<and>
   fst (EC2RemoteClient_Close (ok_env (Exited 0)) ready_ins
          (snd (EC2RemoteClient_Close (ok_env (Exited 0)) ready_ins ready_world)))
     = Returns (Some (LibError ''use of closed network connection''))"
proof -
  have c: "cmdClient ready_ins = Some \<lparr>client = 7\<rparr>" by (simp add: ready_ins_def)
  have 1: "EC2RemoteClient_Close (ok_env (Exited 0)) ready_ins ready_world =
             (Returns None, ready_world @ [EvConnClose 7 None])"
    using open_conns_ready_world
    by (simp add: EC2RemoteClient_Close_def SSHCmdClient_Close_def Conn_Close_def Let_def c ok_env_def)
  have 2: "fst (EC2RemoteClient_Close (ok_env (Exited 0)) ready_ins (ready_world @ [EvConnClose 7 None]))
             = Returns (Some (LibError ''use of closed network connection''))"
    using open_conns_ready_world
    by (simp add: EC2RemoteClient_Close_def SSHCmdClient_Close_def Conn_Close_def Let_def c ok_env_def
        open_conns_append)
  show ?thesis
    by (simp add: NewEC2RemoteClient_ready 1 2)
qed

text \<open>
  Claim C9, amended. For every client that holds a Channel, \<open>Close\<close> hands exactly one
  close of that Channel's connection to the transport and returns the transport's answer
  unchanged; afterwards the connection is not open. A second \<open>Close\<close> leaves the set of
  open connections as the first left it, and returns what the transport answers to
  closing the closed connection.
\<close>

theorem C9_close_releases:
  assumes "cmdClient ins = Some cli"
  shows "EC2RemoteClient_Close E ins tr =
           (Returns (conn_Close E tr (client cli)), tr @ [EvConnClose (client cli) (conn_Close E tr (client cli))]) \<and>
         client cli \<notin> set (open_conns (snd (EC2RemoteClient_Close E ins tr))) \<and>
         open_conns (snd (EC2RemoteClient_Close E ins (snd (EC2RemoteClient_Close E ins tr)))) =
           open_conns (snd (EC2RemoteClient_Close E ins tr)) \<and>
         fst (EC2RemoteClient_Close E ins (snd (EC2RemoteClient_Close E ins tr))) =
           Returns (conn_Close E (tr @ [EvConnClose (client cli) (conn_Close E tr (client cli))]) (client cli))"
proof -
  have eq: "EC2RemoteClient_Close E ins t =
           (Returns (conn_Close E t (client cli)), t @ [EvConnClose (client cli) (conn_Close E t (client cli))])" for t
    using assms by (simp add: EC2RemoteClient_Close_def SSHCmdClient_Close_def Conn_Close_def Let_def)
  show ?thesis
    unfolding eq by (simp add: open_conns_append)
qed

theorem C9_close_releases_witness:
  "cmdClient ready_ins = Some \<lparr>client = 7\<rparr> \<and>
   open_conns ready_world = [7] \<and>
   EC2RemoteClient_Close (ok_env (Exited 0)) ready_ins ready_world =
     (Returns None, ready_world @ [EvConnClose 7 None]) \<and>
   open_conns (snd (EC2RemoteClient_Close (ok_env (Exited 0)) ready_ins ready_world)) = [] \<and>
   open_conns (snd (EC2RemoteClient_Close (ok_env (Exited 0)) ready_ins
                      (snd (EC2RemoteClient_Close (ok_env (Exited 0)) ready_ins ready_world)))) = []"
proof -
  have h: "cmdClient ready_ins = Some \<lparr>client = 7\<rparr>" by (simp add: ready_ins_def)
  have k: "conn_Close (ok_env (Exited 0)) ready_world 7 = None"
    using open_conns_ready_world by (simp add: ok_env_def)
  show ?thesis
  proof -
    note t = C9_close_releases [OF h, of "ok_env (Exited 0)" ready_world]
    from t k have 1: "EC2RemoteClient_Close (ok_env (Exited 0)) ready_ins ready_world =
        (Returns None, ready_world @ [EvConnClose 7 None])"
      by simp
    have 2: "open_conns (snd (EC2RemoteClient_Close (ok_env (Exited 0)) ready_ins ready_world)) = []"
      using open_conns_ready_world by (simp add: 1 open_conns_append)
    from t have "open_conns (snd (EC2RemoteClient_Close (ok_env (Exited 0)) ready_ins
                      (snd (EC2RemoteClient_Close (ok_env (Exited 0)) ready_ins ready_world)))) =
          open_conns (snd (EC2RemoteClient_Close (ok_env (Exited 0)) ready_ins ready_world))"
      by blast
    with h 1 2 open_conns_ready_world show ?thesis by simp
  qed
qed

end
